theory Spec2Isabelle
  imports Complex_Main "HOL-Library.Word"
begin

section \<open>Floating-point values\<close>

text \<open>
  The arrays of the program hold numpy \<open>float64\<close> values. A value is a finite number or
  one of the IEEE 754 special values. Arithmetic on special values follows IEEE 754 as
  numpy applies it (a division by zero gives an infinity or a NaN and a warning, never an
  exception). Arithmetic on finite values is exact: rounding and overflow are not
  modelled. Zero is unsigned and behaves as \<open>+0\<close>.
\<close>

datatype fl = Fin real | PInf | NInf | NaN

fun fl_neg :: "fl \<Rightarrow> fl" where
  "fl_neg (Fin a) = Fin (- a)"
| "fl_neg PInf = NInf"
| "fl_neg NInf = PInf"
| "fl_neg NaN = NaN"

fun fl_add :: "fl \<Rightarrow> fl \<Rightarrow> fl" where
  "fl_add (Fin a) (Fin b) = Fin (a + b)"
| "fl_add NaN y = NaN"
| "fl_add x NaN = NaN"
| "fl_add PInf NInf = NaN"
| "fl_add NInf PInf = NaN"
| "fl_add PInf y = PInf"
| "fl_add x PInf = PInf"
| "fl_add NInf y = NInf"
| "fl_add x NInf = NInf"

definition fl_sub :: "fl \<Rightarrow> fl \<Rightarrow> fl" where
  "fl_sub x y = fl_add x (fl_neg y)"

fun fl_mul :: "fl \<Rightarrow> fl \<Rightarrow> fl" where
  "fl_mul (Fin a) (Fin b) = Fin (a * b)"
| "fl_mul NaN y = NaN"
| "fl_mul x NaN = NaN"
| "fl_mul (Fin a) PInf = (if a = 0 then NaN else if 0 < a then PInf else NInf)"
| "fl_mul (Fin a) NInf = (if a = 0 then NaN else if 0 < a then NInf else PInf)"
| "fl_mul PInf (Fin b) = (if b = 0 then NaN else if 0 < b then PInf else NInf)"
| "fl_mul NInf (Fin b) = (if b = 0 then NaN else if 0 < b then NInf else PInf)"
| "fl_mul PInf PInf = PInf"
| "fl_mul PInf NInf = NInf"
| "fl_mul NInf PInf = NInf"
| "fl_mul NInf NInf = PInf"

fun fl_div :: "fl \<Rightarrow> fl \<Rightarrow> fl" where
  "fl_div (Fin a) (Fin b) =
     (if b \<noteq> 0 then Fin (a / b)
      else if a = 0 then NaN else if 0 < a then PInf else NInf)"
| "fl_div NaN y = NaN"
| "fl_div x NaN = NaN"
| "fl_div (Fin a) PInf = Fin 0"
| "fl_div (Fin a) NInf = Fin 0"
| "fl_div PInf (Fin b) = (if 0 \<le> b then PInf else NInf)"
| "fl_div NInf (Fin b) = (if 0 \<le> b then NInf else PInf)"
| "fl_div PInf PInf = NaN"
| "fl_div PInf NInf = NaN"
| "fl_div NInf PInf = NaN"
| "fl_div NInf NInf = NaN"

fun fl_sqrt :: "fl \<Rightarrow> fl" where
  "fl_sqrt (Fin a) = (if 0 \<le> a then Fin (sqrt a) else NaN)"
| "fl_sqrt PInf = PInf"
| "fl_sqrt NInf = NaN"
| "fl_sqrt NaN = NaN"

fun fl_exp :: "fl \<Rightarrow> fl" where
  "fl_exp (Fin a) = Fin (exp a)"
| "fl_exp PInf = PInf"
| "fl_exp NInf = Fin 0"
| "fl_exp NaN = NaN"

text \<open>The comparison \<open>==\<close> of two floats: a NaN equals nothing, itself included.\<close>

definition fl_eq :: "fl \<Rightarrow> fl \<Rightarrow> bool" where
  "fl_eq x y = (x \<noteq> NaN \<and> x = y)"

definition fl_of_nat :: "nat \<Rightarrow> fl" where
  "fl_of_nat n = Fin (real n)"

section \<open>Errors and numpy array operations\<close>

datatype error = HDX_Error | ValueError | KeyError | IndexError | TypeError | OverflowError

text \<open>
  A numpy array of at most two dimensions: a scalar (shape \<open>()\<close>), a vector, or a list
  of rows.
\<close>

datatype 'a ndarray = Arr0 'a | Arr1 "'a list" | Arr2 "'a list list"

text \<open>\<open>np.array_equal\<close>: the same shape and every pair of elements equal under \<open>==\<close>.\<close>

definition np_array_equal :: "fl list \<Rightarrow> fl list \<Rightarrow> bool" where
  "np_array_equal xs ys = list_all2 fl_eq xs ys"

text \<open>
  \<open>a[:] = f(a, b)\<close> on two one-dimensional arrays: element by element when the lengths
  agree; a \<open>b\<close> of length one is broadcast; every other pair of shapes raises ValueError.
\<close>

definition np_assign_binop :: "(fl \<Rightarrow> fl \<Rightarrow> fl) \<Rightarrow> fl list \<Rightarrow> fl list \<Rightarrow> error + fl list" where
  "np_assign_binop f a b =
     (if length a = length b then Inr (map2 f a b)
      else if length b = 1 then Inr (map (\<lambda>x. f x (hd b)) a)
      else Inl ValueError)"

text \<open>
  \<open>np.concatenate((a, b), axis=1)\<close> on two-dimensional arrays held as lists of rows: the
  rows are joined pairwise, and a different number of rows raises ValueError.
\<close>

definition np_concatenate1 :: "'a list list \<Rightarrow> 'a list list \<Rightarrow> error + 'a list list" where
  "np_concatenate1 a b =
     (if length a = length b then Inr (map2 (@) a b) else Inl ValueError)"

section \<open>The method objects of Methods.py\<close>

text \<open>
  A \<open>Radou\<close> object after \<open>run\<close>: every result attribute is set. \<open>pfs\<close> is the array of
  rows (mean protection factor, standard deviation), one row for each residue.
\<close>

record radou =
  r_reslist :: "int list"
  r_n_frames :: nat
  r_pfs :: "(fl \<times> fl) list"
  r_pf_byframe :: "fl list list"
  r_rates :: "fl list"
  r_resfracs :: "fl list list"

text \<open>
  A \<open>PH\<close> object after \<open>run\<close>. \<open>watcontacts\<close> holds, for each residue, the water-contact
  count of every frame.
\<close>

record ph =
  p_reslist :: "int list"
  p_n_frames :: nat
  p_watcontacts :: "nat list list"
  p_pfs :: "(fl \<times> fl) list"
  p_pf_byframe :: "fl list list"
  p_rates :: "fl list"
  p_resfracs :: "fl list list"

text \<open>
  An \<open>Analyze\<close> object: the per-chunk history (\<open>resfracs\<close>, \<open>pfs\<close>, \<open>n_frames\<close>), the
  running cumulative values (\<open>c_resfracs\<close>, \<open>c_pfs\<close>, \<open>c_n_frames\<close>), and the entries of
  \<open>params\<close> that the analysis reads. \<open>segres\<close> is an array of \<open>np.int64\<close>: the list of
  its rows (start, end) when its shape is \<open>(n, 2)\<close>, and the empty list for the array
  of shape \<open>(0,)\<close> that \<open>np.loadtxt\<close> returns for a file with no data.
\<close>

record analyze =
  a_reslist :: "int list"
  a_resfracs :: "fl list list list"
  a_c_resfracs :: "fl list list list"
  a_pfs :: "fl list list"
  a_c_pfs :: "fl list list"
  a_n_frames :: "nat list"
  a_c_n_frames :: "nat list"
  a_rates :: "fl list"
  a_times :: "fl list"
  a_skip_first :: bool
  a_segres :: "(64 word \<times> 64 word) list"
  a_expfracs :: "fl ndarray option"

text \<open>The right-hand operand of \<open>+\<close> is any Python object.\<close>

datatype pyobj = RadouObj radou | PHObj ph | AnalyzeObj analyze | OtherObj

datatype pyclass = Radou | PH | Analyze

fun isinstance :: "pyobj \<Rightarrow> pyclass \<Rightarrow> bool" where
  "isinstance (RadouObj r) c = (c = Radou)"
| "isinstance (PHObj p) c = (c = PH)"
| "isinstance (AnalyzeObj a) c = (c = Analyze)"
| "isinstance OtherObj c = False"

subsection \<open>Radou.__add__\<close>

text \<open>
  The method updates \<open>self\<close> in place, so the model returns the final state of \<open>self\<close>
  together with the exception that was raised, if any; with no exception the value
  returned is \<open>self\<close>. \<open>other\<close> is only read, and the two operands are distinct objects.
  The method \<open>dfrac\<close> is inherited from \<open>DfPredictor\<close> and is a parameter here. Both
  operands have been through \<open>run\<close>, so no attribute is missing and the branch
  \<open>except AttributeError\<close> is not taken. Frame counts are Python integers, which do not
  overflow.
\<close>

definition radou_merge_pf :: "nat \<Rightarrow> nat \<Rightarrow> fl \<Rightarrow> fl \<Rightarrow> fl" where
  "radou_merge_pf F f a b = fl_add (fl_mul (fl_of_nat F) a) (fl_mul (fl_of_nat f) b)"

definition radou_merge_sd :: "nat \<Rightarrow> nat \<Rightarrow> fl \<Rightarrow> fl \<Rightarrow> fl" where
  "radou_merge_sd F f a b =
     fl_sqrt (fl_add (fl_mul (fl_of_nat (F\<^sup>2)) (fl_mul a a))
                     (fl_mul (fl_of_nat (f\<^sup>2)) (fl_mul b b)))"

definition Radou_add :: "(radou \<Rightarrow> fl list list) \<Rightarrow> radou \<Rightarrow> pyobj \<Rightarrow> radou \<times> error option" where
  "Radou_add dfrac self x =
     (case x of
        RadouObj other \<Rightarrow>
          if np_array_equal (r_rates self) (r_rates other) then
            (case np_assign_binop (radou_merge_pf (r_n_frames self) (r_n_frames other))
                    (map fst (r_pfs self)) (map fst (r_pfs other)) of
               Inl e \<Rightarrow> (self, Some e)
             | Inr pf0 \<Rightarrow>
                 (case np_assign_binop (radou_merge_sd (r_n_frames self) (r_n_frames other))
                         (map snd (r_pfs self)) (map snd (r_pfs other)) of
                    Inl e \<Rightarrow> (self\<lparr>r_pfs := zip pf0 (map snd (r_pfs self))\<rparr>, Some e)
                  | Inr sd0 \<Rightarrow>
                      let n = r_n_frames self + r_n_frames other;
                          pf1 = map (\<lambda>v. fl_div v (fl_of_nat n)) pf0;
                          sd1 = map (\<lambda>v. fl_div v (fl_of_nat n)) sd0;
                          s1 = self\<lparr>r_n_frames := n, r_pfs := zip pf1 sd1\<rparr>
                      in (case np_concatenate1 (r_pf_byframe self) (r_pf_byframe other) of
                            Inl e \<Rightarrow> (s1, Some e)
                          | Inr bf \<Rightarrow>
                              let s2 = s1\<lparr>r_pf_byframe := bf\<rparr>
                              in (s2\<lparr>r_resfracs := dfrac s2\<rparr>, None))))
          else (self, Some HDX_Error)
      | _ \<Rightarrow> (self, None))"

subsection \<open>PH.PF and PH.__add__\<close>

text \<open>
  The update part of \<open>PH.PF\<close> (the part that runs with \<open>update_only\<close> set and, after the
  contacts are computed, without it): the open and closed frame counts of each residue
  and their quotient, stacked with a column of zeros.
\<close>

definition opencount :: "nat list \<Rightarrow> nat" where
  "opencount row = length (filter (\<lambda>c. 1 < c) row)"

definition closedcount :: "nat list \<Rightarrow> nat" where
  "closedcount row = length (filter (\<lambda>c. c \<le> 1) row)"

definition PH_PF_update :: "nat list list \<Rightarrow> (fl \<times> fl) list" where
  "PH_PF_update watcontacts =
     zip (map (\<lambda>row. fl_div (fl_of_nat (closedcount row)) (fl_of_nat (opencount row))) watcontacts)
         (replicate (length watcontacts) (Fin 0))"

definition PH_add :: "(ph \<Rightarrow> fl list list) \<Rightarrow> ph \<Rightarrow> pyobj \<Rightarrow> ph \<times> error option" where
  "PH_add dfrac self x =
     (case x of
        PHObj other \<Rightarrow>
          if np_array_equal (p_rates self) (p_rates other) then
            let s1 = self\<lparr>p_n_frames := p_n_frames self + p_n_frames other\<rparr>
            in (case np_concatenate1 (p_watcontacts self) (p_watcontacts other) of
                  Inl e \<Rightarrow> (s1, Some e)
                | Inr wc \<Rightarrow>
                    let s2 = s1\<lparr>p_watcontacts := wc\<rparr>
                    in (case np_concatenate1 (p_pf_byframe self) (p_pf_byframe other) of
                          Inl e \<Rightarrow> (s2, Some e)
                        | Inr bf \<Rightarrow>
                            let s3 = s2\<lparr>p_pf_byframe := bf, p_pfs := PH_PF_update wc\<rparr>
                            in (s3\<lparr>p_resfracs := dfrac s3\<rparr>, None)))
          else (self, Some HDX_Error)
      | _ \<Rightarrow> (self, None))"

section \<open>Analyze.__add__\<close>

text \<open>
  Two-dimensional arrays are lists of rows and three-dimensional arrays are lists of
  matrices. The arrays of an \<open>Analyze\<close> object have one entry for each chunk along
  their first axis and at least one chunk.
\<close>

definition ncols :: "'a list list \<Rightarrow> nat" where
  "ncols m = (case m of [] \<Rightarrow> 0 | r # rs \<Rightarrow> length r)"

text \<open>\<open>np.concatenate(..., axis=0)\<close>: the trailing dimensions must agree.\<close>

definition np_concatenate0 :: "'a list list \<Rightarrow> 'a list list \<Rightarrow> error + 'a list list" where
  "np_concatenate0 a b = (if ncols a = ncols b then Inr (a @ b) else Inl ValueError)"

definition tshape :: "'a list list list \<Rightarrow> nat \<times> nat" where
  "tshape a = (case a of [] \<Rightarrow> (0, 0) | m # ms \<Rightarrow> (length m, ncols m))"

definition np_concatenate0_3d ::
  "'a list list list \<Rightarrow> 'a list list list \<Rightarrow> error + 'a list list list" where
  "np_concatenate0_3d a b = (if tshape a = tshape b then Inr (a @ b) else Inl ValueError)"

text \<open>\<open>np.cumsum\<close> of a one-dimensional array of frame counts.\<close>

fun cumsum_nat_from :: "nat \<Rightarrow> nat list \<Rightarrow> nat list" where
  "cumsum_nat_from acc [] = []"
| "cumsum_nat_from acc (n # ns) = (acc + n) # cumsum_nat_from (acc + n) ns"

definition np_cumsum :: "nat list \<Rightarrow> nat list" where
  "np_cumsum ns = cumsum_nat_from 0 ns"

text \<open>\<open>np.cumsum(_, axis=0)\<close>: the running sums of the rows.\<close>

fun cumsum_rows_from :: "fl list \<Rightarrow> fl list list \<Rightarrow> fl list list" where
  "cumsum_rows_from acc [] = []"
| "cumsum_rows_from acc (r # rs) = map2 fl_add acc r # cumsum_rows_from (map2 fl_add acc r) rs"

definition np_cumsum0 :: "fl list list \<Rightarrow> fl list list" where
  "np_cumsum0 m = (case m of [] \<Rightarrow> [] | r # rs \<Rightarrow> r # cumsum_rows_from r rs)"

text \<open>
  The loop \<open>for frames, curr_pf in zip(new.n_frames, _): curr_pf *= frames\<close>: \<open>zip\<close>
  stops at the shorter sequence, and the rows beyond it stay as they are.
\<close>

fun scale_rows :: "nat list \<Rightarrow> fl list list \<Rightarrow> fl list list" where
  "scale_rows (n # ns) (r # rs) = map (\<lambda>v. fl_mul v (fl_of_nat n)) r # scale_rows ns rs"
| "scale_rows ns rs = rs"

text \<open>The loop \<open>for tot_frames, tot_pf in zip(new.c_n_frames, new.c_pfs): tot_pf /= tot_frames\<close>.\<close>

fun divide_rows :: "nat list \<Rightarrow> fl list list \<Rightarrow> fl list list" where
  "divide_rows (n # ns) (r # rs) = map (\<lambda>v. fl_div v (fl_of_nat n)) r # divide_rows ns rs"
| "divide_rows ns rs = rs"

text \<open>The local function \<open>_residue_fraction\<close>: \<open>1 - np.exp(-k / pf * time)\<close>.\<close>

definition residue_fraction :: "fl \<Rightarrow> fl \<Rightarrow> fl \<Rightarrow> fl" where
  "residue_fraction pf k time = fl_sub (Fin 1) (fl_exp (fl_mul (fl_div (fl_neg k) pf) time))"

text \<open>The assignment \<open>_[i1,i2] = v\<close>; an index out of range raises IndexError.\<close>

definition set_cell :: "fl list list \<Rightarrow> nat \<Rightarrow> nat \<Rightarrow> fl \<Rightarrow> error + fl list list" where
  "set_cell m i j v =
     (if i < length m \<and> j < length (m ! i) then Inr (m[i := (m ! i)[j := v]])
      else Inl IndexError)"

text \<open>
  The inner loop over \<open>enumerate(itertools.imap(_residue_fraction, new.c_pfs[-1], new.rates))\<close>
  for the timepoint \<open>t\<close> of index \<open>i2\<close>; \<open>imap\<close> stops at the shorter of its two
  arguments, so the loop runs over the pairs of \<open>zip\<close>.
\<close>

fun fill_residues :: "fl \<Rightarrow> nat \<Rightarrow> nat \<Rightarrow> (fl \<times> fl) list \<Rightarrow> fl list list \<Rightarrow> error + fl list list" where
  "fill_residues t i2 i1 [] tab = Inr tab"
| "fill_residues t i2 i1 ((pf, k) # rest) tab =
     (case set_cell tab i1 i2 (residue_fraction pf k t) of
        Inl e \<Rightarrow> Inl e
      | Inr tab' \<Rightarrow> fill_residues t i2 (Suc i1) rest tab')"

text \<open>The outer loop over \<open>enumerate(new.params['times'])\<close>.\<close>

fun fill_times :: "(fl \<times> fl) list \<Rightarrow> nat \<Rightarrow> fl list \<Rightarrow> fl list list \<Rightarrow> error + fl list list" where
  "fill_times pk i2 [] tab = Inr tab"
| "fill_times pk i2 (t # ts) tab =
     (case fill_residues t i2 0 pk tab of
        Inl e \<Rightarrow> Inl e
      | Inr tab' \<Rightarrow> fill_times pk (Suc i2) ts tab')"

text \<open>
  \<open>np.reshape(_, (1, r, c))\<close>: the elements in row-major order, regrouped into \<open>r\<close> rows
  of \<open>c\<close>; a different total size raises ValueError.
\<close>

definition np_reshape :: "nat \<Rightarrow> nat \<Rightarrow> 'a list list \<Rightarrow> error + 'a list list" where
  "np_reshape r c m =
     (if length (concat m) = r * c
      then Inr (map (\<lambda>i. take c (drop (i * c) (concat m))) [0..<r])
      else Inl ValueError)"

definition np_zeros :: "nat \<Rightarrow> nat \<Rightarrow> fl list list" where
  "np_zeros r c = replicate r (replicate c (Fin 0))"

definition differ_message :: string where
  "differ_message = ''Reslist or rates of added Analyze objects differ. Not adding them!''"

text \<open>
  \<open>Analyze.__add__\<close> never changes \<open>self\<close>: it returns \<open>self\<close>, or a deep copy of it with
  the merged values. The result holds the object returned and the lines printed.
\<close>

definition Analyze_add :: "analyze \<Rightarrow> pyobj \<Rightarrow> error + (analyze \<times> string list)" where
  "Analyze_add self x =
     (case x of
        AnalyzeObj other \<Rightarrow>
          if \<not> (a_reslist self = a_reslist other \<and> np_array_equal (a_rates self) (a_rates other))
          then Inr (self, [differ_message])
          else
            let n_frames = a_n_frames self @ a_n_frames other;
                c_n_frames = np_cumsum n_frames
            in (case np_concatenate0 (a_pfs self) (a_pfs other) of
                  Inl e \<Rightarrow> Inl e
                | Inr pfs \<Rightarrow>
                    let c_pfs = divide_rows c_n_frames (np_cumsum0 (scale_rows n_frames pfs))
                    in (case np_concatenate0_3d (a_resfracs self) (a_resfracs other) of
                          Inl e \<Rightarrow> Inl e
                        | Inr resfracs \<Rightarrow>
                            if resfracs = [] \<or> (a_times self \<noteq> [] \<and> c_pfs = [])
                            then Inl IndexError
                            else
                              (case fill_times (zip (last c_pfs) (a_rates self)) 0 (a_times self)
                                      (np_zeros (length (hd resfracs)) (ncols (hd resfracs))) of
                                 Inl e \<Rightarrow> Inl e
                               | Inr tab \<Rightarrow>
                                   (case np_reshape (length (a_reslist self)) (length (a_times self)) tab of
                                      Inl e \<Rightarrow> Inl e
                                    | Inr block \<Rightarrow>
                                        (case np_concatenate0_3d (a_c_resfracs self) [block] of
                                           Inl e \<Rightarrow> Inl e
                                         | Inr c_resfracs \<Rightarrow>
                                             Inr (self\<lparr>a_n_frames := n_frames,
                                                        a_c_n_frames := c_n_frames,
                                                        a_pfs := pfs,
                                                        a_c_pfs := c_pfs,
                                                        a_resfracs := resfracs,
                                                        a_c_resfracs := c_resfracs\<rparr>, []))))))
      | _ \<Rightarrow> Inr (self, []))"

section \<open>Analyze.segments\<close>

text \<open>
  A topology is the list of its residues; the index of a residue is its position.
  \<open>top.residue(i)\<close> indexes that list as Python does: a negative index counts from the
  end, and an index out of range raises IndexError.
\<close>

record residue =
  res_name :: string
  resSeq :: int
  is_protein :: bool

definition top_residue :: "residue list \<Rightarrow> int \<Rightarrow> error + residue" where
  "top_residue topo i =
     (if 0 \<le> i \<and> i < int (length topo) then Inr (topo ! nat i)
      else if i < 0 \<and> - int (length topo) \<le> i then Inr (topo ! nat (int (length topo) + i))
      else Inl IndexError)"

text \<open>The lines written to the log file, one constructor for each message of the method.\<close>

datatype log_event =
    LogConverting
  | LogSkippingResidue residue
  | LogSkipFirst residue int int
  | LogIncludeFirst residue int int
  | LogStartMissing bool int residue
  | LogEndMissing bool int residue
  | LogComplete

text \<open>
  The dictionary \<open>res2idx\<close>, filled while enumerating the residues: a protein residue
  stores its index under its \<open>resSeq\<close> (a later residue with the same number replaces an
  earlier one), any other residue is logged and skipped.
\<close>

fun build_res2idx ::
  "nat \<Rightarrow> residue list \<Rightarrow> (int \<rightharpoonup> nat) \<times> log_event list \<Rightarrow> (int \<rightharpoonup> nat) \<times> log_event list" where
  "build_res2idx idx [] acc = acc"
| "build_res2idx idx (res # rest) (m, lg) =
     build_res2idx (Suc idx) rest
       (if is_protein res then (m(resSeq res \<mapsto> idx), lg) else (m, lg @ [LogSkippingResidue res]))"

text \<open>
  The loop that reports the \<open>skip_first\<close> policy for each segment. It reads
  \<open>res2idx[s[0]]\<close> outside any \<open>try\<close>, so a start residue that is not in the dictionary
  raises KeyError here.
\<close>

fun info_loop ::
  "bool \<Rightarrow> residue list \<Rightarrow> (int \<rightharpoonup> nat) \<Rightarrow> (int \<times> int) list \<Rightarrow> error + log_event list" where
  "info_loop skip topo res2idx [] = Inr []"
| "info_loop skip topo res2idx (s # ss) =
     (case res2idx (fst s) of
        None \<Rightarrow> Inl KeyError
      | Some i \<Rightarrow>
          (case top_residue topo (int i) of
             Inl e \<Rightarrow> Inl e
           | Inr r \<Rightarrow>
               (case info_loop skip topo res2idx ss of
                  Inl e \<Rightarrow> Inl e
                | Inr lg \<Rightarrow>
                    Inr ((if skip then LogSkipFirst r (fst s) (snd s)
                          else LogIncludeFirst r (fst s) (snd s)) # lg))))"

text \<open>
  The two \<open>try\<close> blocks of the averaging loops: the start and end indices of a segment,
  with the substitutes and the log lines for a residue number that is not in the
  dictionary. The flag tells the loop over the cumulative fractions, which writes its
  own messages. The message for a missing end residue prints \<open>s[0]\<close>, as the source does.
\<close>

definition seg_start :: "bool \<Rightarrow> residue list \<Rightarrow> (int \<rightharpoonup> nat) \<Rightarrow> int \<times> int \<Rightarrow> error + (int \<times> log_event list)" where
  "seg_start cumulative topo res2idx s =
     (case res2idx (fst s) of
        Some i \<Rightarrow> Inr (int i, [])
      | None \<Rightarrow>
          (case top_residue topo 0 of
             Inl e \<Rightarrow> Inl e
           | Inr r \<Rightarrow> Inr (0, [LogStartMissing cumulative (fst s) r])))"

definition seg_end :: "bool \<Rightarrow> residue list \<Rightarrow> (int \<rightharpoonup> nat) \<Rightarrow> int \<times> int \<Rightarrow> error + (int \<times> log_event list)" where
  "seg_end cumulative topo res2idx s =
     (case res2idx (snd s) of
        Some i \<Rightarrow> Inr (int i, [])
      | None \<Rightarrow>
          (case top_residue topo (- 1) of
             Inl e \<Rightarrow> Inl e
           | Inr r \<Rightarrow> Inr (int (length topo) - 1, [LogEndMissing cumulative (fst s) r])))"

text \<open>
  \<open>np.where(np.logical_and(self.reslist > start, self.reslist <= end))[0]\<close>, with
  \<open>>=\<close> in place of \<open>>\<close> when \<open>skip_first\<close> is not set: the positions in \<open>reslist\<close> of
  the selected residues, in increasing order.
\<close>

definition seg_idxs :: "bool \<Rightarrow> int list \<Rightarrow> int \<Rightarrow> int \<Rightarrow> nat list" where
  "seg_idxs skip reslist start stop =
     filter (\<lambda>j. (if skip then start < reslist ! j else start \<le> reslist ! j) \<and> reslist ! j \<le> stop)
       [0..<length reslist]"

text \<open>\<open>chunk[idxs, i2]\<close>: each selected element is read; one out of range raises IndexError.\<close>

fun take_cells :: "fl list list \<Rightarrow> nat list \<Rightarrow> nat \<Rightarrow> error + fl list" where
  "take_cells chunk [] i2 = Inr []"
| "take_cells chunk (j # js) i2 =
     (if j < length chunk \<and> i2 < length (chunk ! j)
      then (case take_cells chunk js i2 of Inl e \<Rightarrow> Inl e | Inr vs \<Rightarrow> Inr (chunk ! j ! i2 # vs))
      else Inl IndexError)"

text \<open>\<open>np.mean\<close>: the sum divided by the number of elements; of no element it is NaN.\<close>

definition np_mean :: "fl list \<Rightarrow> fl" where
  "np_mean vs = fl_div (foldl fl_add (Fin 0) vs) (fl_of_nat (length vs))"

text \<open>The body of the innermost loop, for one chunk, one timepoint and one segment.\<close>

definition seg_average ::
  "bool \<Rightarrow> bool \<Rightarrow> int list \<Rightarrow> residue list \<Rightarrow> (int \<rightharpoonup> nat) \<Rightarrow> fl list list \<Rightarrow> nat \<Rightarrow> int \<times> int
     \<Rightarrow> error + (fl \<times> log_event list)" where
  "seg_average cumulative skip reslist topo res2idx chunk i2 s =
     (case seg_start cumulative topo res2idx s of
        Inl e \<Rightarrow> Inl e
      | Inr (start, l1) \<Rightarrow>
          (case seg_end cumulative topo res2idx s of
             Inl e \<Rightarrow> Inl e
           | Inr (stop, l2) \<Rightarrow>
               (case take_cells chunk (seg_idxs skip reslist start stop) i2 of
                  Inl e \<Rightarrow> Inl e
                | Inr vs \<Rightarrow> Inr (np_mean vs, l1 @ l2))))"

text \<open>A loop that collects the value of its body for each element and appends the log lines.\<close>

fun for_each :: "('a \<Rightarrow> error + ('b \<times> log_event list)) \<Rightarrow> 'a list \<Rightarrow> error + ('b list \<times> log_event list)" where
  "for_each body [] = Inr ([], [])"
| "for_each body (x # xs) =
     (case body x of
        Inl e \<Rightarrow> Inl e
      | Inr (y, l) \<Rightarrow>
          (case for_each body xs of
             Inl e \<Rightarrow> Inl e
           | Inr (ys, ls) \<Rightarrow> Inr (y # ys, l @ ls)))"

text \<open>
  The three nested loops (chunk, then timepoint, then segment). Every cell
  \<open>aves[i0, i1, i2]\<close> is assigned once; the values are collected in loop order and then
  laid out as the array \<open>[chunk][segment][timepoint]\<close>.
\<close>

definition by_seg_time :: "nat \<Rightarrow> nat \<Rightarrow> fl list list \<Rightarrow> fl list list" where
  "by_seg_time nseg ntime v = map (\<lambda>i1. map (\<lambda>i2. v ! i2 ! i1) [0..<ntime]) [0..<nseg]"

definition averages ::
  "bool \<Rightarrow> bool \<Rightarrow> int list \<Rightarrow> residue list \<Rightarrow> (int \<rightharpoonup> nat) \<Rightarrow> nat \<Rightarrow> (int \<times> int) list
     \<Rightarrow> fl list list list \<Rightarrow> error + (fl list list list \<times> log_event list)" where
  "averages cumulative skip reslist topo res2idx ntime segres chunks =
     (case for_each (\<lambda>chunk.
              for_each (\<lambda>i2.
                for_each (seg_average cumulative skip reslist topo res2idx chunk i2) segres)
              [0..<ntime])
            chunks of
        Inl e \<Rightarrow> Inl e
      | Inr (vals, lg) \<Rightarrow> Inr (map (by_seg_time (length segres) ntime) vals, lg))"

text \<open>
  \<open>np.loadtxt\<close> reads a text file line by line and skips the blank lines. A file is the
  list of its lines, each line the list of its fields, each field the number it denotes
  (here a value of the element type \<open>i8\<close>, \<open>np.int64\<close>).
\<close>

definition data_rows :: "'a list list \<Rightarrow> 'a list list" where
  "data_rows lines = filter (\<lambda>r. r \<noteq> []) lines"

text \<open>
  \<open>np.squeeze\<close> on the array of the rows read (at least one row, at least one column):
  every axis of length one is removed, so a file of one line comes back as a vector, a
  file of one column as a vector, and a file of one number as a scalar.
\<close>

definition np_squeeze :: "'a list list \<Rightarrow> 'a ndarray" where
  "np_squeeze rows =
     (if length rows = 1 then (if ncols rows = 1 then Arr0 (hd (hd rows)) else Arr1 (hd rows))
      else if ncols rows = 1 then Arr1 (map hd rows)
      else Arr2 rows)"

text \<open>
  \<open>np.loadtxt(file, dtype='i8')\<close>: lines with different numbers of fields raise
  ValueError; a file with no data gives the empty array of shape \<open>(0,)\<close> (and a
  warning); every other file gives the squeezed array of its rows.
\<close>

definition np_loadtxt_i8 :: "64 word list list \<Rightarrow> error + 64 word ndarray" where
  "np_loadtxt_i8 lines =
     (if data_rows lines = [] then Inr (Arr1 [])
      else if list_all (\<lambda>r. length r = ncols (data_rows lines)) (data_rows lines)
      then Inr (np_squeeze (data_rows lines))
      else Inl ValueError)"

text \<open>
  \<open>read_segfile\<close> assigns the array to \<open>self.segres\<close> and then unpacks every element
  of it into two names, \<open>for v1, v2 in self.segres\<close>, inside \<open>try ... except ValueError\<close>.
  Iterating over a scalar array, and unpacking a number (the element of a vector), raise
  TypeError, which the method does not catch: this is what happens with every file of
  one line and every file of one column. Unpacking a row of three or more numbers
  raises ValueError, which is turned into \<open>HDX_Error\<close>, as is the ValueError of
  \<open>np.loadtxt\<close>. The object of a call that raises is not kept.
\<close>

definition read_segfile :: "analyze \<Rightarrow> 64 word list list \<Rightarrow> error + analyze" where
  "read_segfile self segfile =
     (case np_loadtxt_i8 segfile of
        Inl e \<Rightarrow> (if e = ValueError then Inl HDX_Error else Inl e)
      | Inr (Arr0 v) \<Rightarrow> Inl TypeError
      | Inr (Arr1 vs) \<Rightarrow> (if vs = [] then Inr (self\<lparr>a_segres := []\<rparr>) else Inl TypeError)
      | Inr (Arr2 rows) \<Rightarrow>
          (if ncols rows = 2 then Inr (self\<lparr>a_segres := map (\<lambda>r. (r ! 0, r ! 1)) rows\<rparr>)
           else Inl HDX_Error))"

text \<open>
  The elements of \<open>segres\<close> are \<open>np.int64\<close> values; a look-up in the dictionary, whose
  keys are Python integers, and a line of the log use the integer each one denotes.
\<close>

definition seg_values :: "(64 word \<times> 64 word) list \<Rightarrow> (int \<times> int) list" where
  "seg_values segres = map (\<lambda>(s, e). (sint s, sint e)) segres"

text \<open>
  The end of \<open>segments\<close> writes one file for each chunk, the rows of
  \<open>np.hstack((self.segres, chunkave))\<close>. For a \<open>segres\<close> of shape \<open>(n, 2)\<close> the rows are
  joined pairwise, the residue numbers converted to floats. For the \<open>segres\<close> of shape
  \<open>(0,)\<close> of an empty segments file, \<open>np.hstack\<close> joins a vector with a two-dimensional
  array and raises ValueError. A file is held as the array handed to \<open>np.savetxt\<close>; its
  name and the text of its fields are not modelled.
\<close>

definition np_hstack_seg :: "(64 word \<times> 64 word) list \<Rightarrow> fl list list \<Rightarrow> error + fl list list" where
  "np_hstack_seg segres chunkave =
     (if segres \<noteq> [] \<and> length segres = length chunkave
      then Inr (map2 (\<lambda>(s, e) row. Fin (real_of_int (sint s)) # Fin (real_of_int (sint e)) # row)
                  segres chunkave)
      else Inl ValueError)"

fun write_chunk_files :: "(64 word \<times> 64 word) list \<Rightarrow> fl list list list \<Rightarrow> error + fl list list list" where
  "write_chunk_files segres [] = Inr []"
| "write_chunk_files segres (chunkave # rest) =
     (case np_hstack_seg segres chunkave of
        Inl e \<Rightarrow> Inl e
      | Inr tab \<Rightarrow>
          (case write_chunk_files segres rest of
             Inl e \<Rightarrow> Inl e
           | Inr tabs \<Rightarrow> Inr (tab # tabs)))"

text \<open>
  \<open>segments\<close>: the dictionary is built, the segments file is read into \<open>self.segres\<close>,
  the policy is reported for each segment, the averages of the per-chunk and of the
  cumulative fractions are computed, and the files are written. \<open>params['times']\<close> is a
  list, so the branch \<open>except TypeError\<close> for a single number is not taken. The result
  is the object with its \<open>segres\<close>, the pair \<open>(aves, c_aves)\<close>, the files written and
  the lines written to the log; the log and the files of a run that raises are not
  kept.
\<close>

definition segments ::
  "analyze \<Rightarrow> residue list \<Rightarrow> 64 word list list
     \<Rightarrow> error + (analyze \<times> fl list list list \<times> fl list list list \<times> fl list list list \<times> log_event list)" where
  "segments self0 topo segfile =
     (let (res2idx, lg0) = build_res2idx 0 topo (Map.empty, [LogConverting])
      in (case read_segfile self0 segfile of
            Inl e \<Rightarrow> Inl e
          | Inr self \<Rightarrow>
              (case info_loop (a_skip_first self) topo res2idx (seg_values (a_segres self)) of
                 Inl e \<Rightarrow> Inl e
               | Inr lg1 \<Rightarrow>
                   (case averages False (a_skip_first self) (a_reslist self) topo res2idx
                           (length (a_times self)) (seg_values (a_segres self)) (a_resfracs self) of
                      Inl e \<Rightarrow> Inl e
                    | Inr (aves, lg2) \<Rightarrow>
                        (case averages True (a_skip_first self) (a_reslist self) topo res2idx
                                (length (a_times self)) (seg_values (a_segres self))
                                (a_c_resfracs self) of
                           Inl e \<Rightarrow> Inl e
                         | Inr (c_aves, lg3) \<Rightarrow>
                             (case write_chunk_files (a_segres self) aves of
                                Inl e \<Rightarrow> Inl e
                              | Inr files \<Rightarrow>
                                  Inr (self, aves, c_aves, files,
                                       lg0 @ lg1 @ lg2 @ lg3 @ [LogComplete])))))))"

section \<open>Analyze.read_expfile\<close>

text \<open>
  The experimental file is read by \<open>np.loadtxt\<close> with a structured type: two fields of
  type \<open>np.int32\<close> (\<open>segres\<close>) and \<open>k\<close> fields of type \<open>np.float64\<close> (\<open>fracs\<close>). The file
  is the list of its lines, each line the list of the numbers its fields denote. An
  integer field is converted with \<open>int(float(x))\<close>, which truncates towards zero.
\<close>

definition py_int :: "real \<Rightarrow> int" where
  "py_int x = (if 0 \<le> x then \<lfloor>x\<rfloor> else \<lceil>x\<rceil>)"

text \<open>
  What numpy does with an integer that does not fit \<open>np.int32\<close> depends on its version,
  so this behaviour is a parameter. The versions for Python 2, which the program is
  written for, store the low 32 bits of an integer that fits a C \<open>long\<close> (64 bits) and
  raise OverflowError for a larger one (\<open>LowBits\<close>); the current versions refuse the
  field with a ValueError (\<open>Refused\<close>).
\<close>

datatype int_overflow = LowBits | Refused

definition np_int32 :: "int_overflow \<Rightarrow> int \<Rightarrow> error + 32 word" where
  "np_int32 pol i =
     (if - (2 ^ 31) \<le> i \<and> i < 2 ^ 31 then Inr (word_of_int i)
      else (case pol of
              Refused \<Rightarrow> Inl ValueError
            | LowBits \<Rightarrow>
                if - (2 ^ 63) \<le> i \<and> i < 2 ^ 63 then Inr (word_of_int i) else Inl OverflowError))"

text \<open>
  The records of the rows, in the order of the file; the first field that cannot be
  converted raises. Columns beyond \<open>2 + k\<close> are not read.
\<close>

fun read_recs ::
  "int_overflow \<Rightarrow> nat \<Rightarrow> real list list \<Rightarrow> error + ((32 word \<times> 32 word) \<times> fl list) list" where
  "read_recs pol k [] = Inr []"
| "read_recs pol k (r # rs) =
     (case np_int32 pol (py_int (r ! 0)) of
        Inl err \<Rightarrow> Inl err
      | Inr s \<Rightarrow>
          (case np_int32 pol (py_int (r ! 1)) of
             Inl err \<Rightarrow> Inl err
           | Inr e \<Rightarrow>
               (case read_recs pol k rs of
                  Inl err \<Rightarrow> Inl err
                | Inr recs \<Rightarrow> Inr (((s, e), map Fin (take k (drop 2 r))) # recs))))"

text \<open>
  An array of records has one dimension; squeezed, the array of a file of one line is a
  single record (shape \<open>()\<close>).
\<close>

datatype 'a recarray = Rec0 'a | Rec1 "'a list"

text \<open>
  \<open>np.loadtxt\<close> with this type, as \<open>read_expfile\<close> relies on it: a line with fewer than
  \<open>2 + k\<close> fields, or lines that differ in their number of fields, raise ValueError; a
  file with no data gives an empty array (and a warning).
\<close>

definition np_loadtxt ::
  "int_overflow \<Rightarrow> nat \<Rightarrow> real list list \<Rightarrow> error + ((32 word \<times> 32 word) \<times> fl list) recarray" where
  "np_loadtxt pol k lines =
     (if list_all (\<lambda>r. length r = ncols (data_rows lines) \<and> 2 + k \<le> length r) (data_rows lines)
      then (case read_recs pol k (data_rows lines) of
              Inl e \<Rightarrow> Inl e
            | Inr recs \<Rightarrow> Inr (if length recs = 1 then Rec0 (hd recs) else Rec1 recs))
      else Inl ValueError)"

text \<open>
  The fields \<open>expt['segres']\<close> and \<open>expt['fracs']\<close>: for a single record they are vectors
  (shapes \<open>(2,)\<close> and \<open>(k,)\<close>), for an array of \<open>n\<close> records they have the shapes
  \<open>(n, 2)\<close> and \<open>(n, k)\<close>.
\<close>

definition expt_segres :: "((32 word \<times> 32 word) \<times> fl list) recarray \<Rightarrow> int ndarray" where
  "expt_segres expt =
     (case expt of
        Rec0 ((s, e), fr) \<Rightarrow> Arr1 [sint s, sint e]
      | Rec1 recs \<Rightarrow> Arr2 (map (\<lambda>((s, e), fr). [sint s, sint e]) recs))"

definition expt_fracs :: "((32 word \<times> 32 word) \<times> fl list) recarray \<Rightarrow> fl ndarray" where
  "expt_fracs expt =
     (case expt of
        Rec0 ((s, e), fr) \<Rightarrow> Arr1 fr
      | Rec1 recs \<Rightarrow> Arr2 (map snd recs))"

text \<open>\<open>self.segres\<close> as an array of integers: shape \<open>(0,)\<close> or shape \<open>(n, 2)\<close>.\<close>

definition segres_array :: "(64 word \<times> 64 word) list \<Rightarrow> int ndarray" where
  "segres_array segres =
     (if segres = [] then Arr1 [] else Arr2 (map (\<lambda>(s, e). [sint s, sint e]) segres))"

text \<open>
  \<open>read_expfile\<close>. \<open>np.array_equal\<close> on two arrays of integers holds when they have the
  same shape and the same elements, which is the equality of the two values of type
  \<open>int ndarray\<close> here. \<open>HDX_Error\<close> is declared in \<open>Functions.py\<close>; it is an exception
  class of the program's own, which \<open>except ValueError\<close> does not catch.
\<close>

definition read_expfile :: "int_overflow \<Rightarrow> analyze \<Rightarrow> real list list \<Rightarrow> error + analyze" where
  "read_expfile pol self expfile =
     (case np_loadtxt pol (length (a_times self)) expfile of
        Inl e \<Rightarrow> (if e = ValueError then Inl HDX_Error else Inl e)
      | Inr expt \<Rightarrow>
          (case np_loadtxt pol (length (a_times self) + 1) expfile of
             Inr longer \<Rightarrow> Inl HDX_Error
           | Inl e \<Rightarrow>
               if e \<noteq> ValueError then Inl e
               else if segres_array (a_segres self) = expt_segres expt
                    then Inr (self\<lparr>a_expfracs := Some (expt_fracs expt)\<rparr>)
                    else Inl HDX_Error))"

section \<open>Radou.PF and the protection-factor files\<close>

text \<open>
  The end of \<open>Radou.PF\<close>: the protection factor of each frame is
  \<open>exp(betah\<cdot>Nh + betac\<cdot>Nc)\<close>, and \<open>pfs\<close> holds its mean and its standard deviation
  with \<open>ddof=1\<close> over the frames of each residue. \<open>np.std\<close> divides the sum of the squared
  deviations by \<open>max(N - ddof, 0)\<close>.
\<close>

definition radou_pf_byframe :: "fl \<Rightarrow> fl \<Rightarrow> fl list list \<Rightarrow> fl list list \<Rightarrow> fl list list" where
  "radou_pf_byframe betah betac hbonds contacts =
     map2 (map2 (\<lambda>h c. fl_exp (fl_add (fl_mul h betah) (fl_mul c betac)))) hbonds contacts"

definition np_std_ddof1 :: "fl list \<Rightarrow> fl" where
  "np_std_ddof1 vs =
     fl_sqrt (fl_div
       (foldl fl_add (Fin 0) (map (\<lambda>v. fl_mul (fl_sub v (np_mean vs)) (fl_sub v (np_mean vs))) vs))
       (fl_of_nat (length vs - 1)))"

definition radou_pf_bar :: "fl list list \<Rightarrow> (fl \<times> fl) list" where
  "radou_pf_bar pf_byframe = zip (map np_mean pf_byframe) (map np_std_ddof1 pf_byframe)"

text \<open>
  \<open>np.savetxt\<close> writes the header after \<open>#\<close> and then one line for each row of the array,
  every value formatted with the format of its column and the fields joined by a space.
  A line is held as the list of its fields, and a field as the number its text denotes:
  \<open>%7d\<close> prints an integer, and \<open>%18.8f\<close> prints a number rounded to eight decimals
  (to the even digit at a tie), or \<open>inf\<close>, \<open>-inf\<close> or \<open>nan\<close>.
\<close>

datatype cell = IntCell int | DecCell int | InfCell bool | NanCell

definition round_half_even :: "real \<Rightarrow> int" where
  "round_half_even x =
     (if x - of_int \<lfloor>x\<rfloor> < 1 / 2 then \<lfloor>x\<rfloor>
      else if 1 / 2 < x - of_int \<lfloor>x\<rfloor> then \<lfloor>x\<rfloor> + 1
      else if even \<lfloor>x\<rfloor> then \<lfloor>x\<rfloor> else \<lfloor>x\<rfloor> + 1)"

definition fmt_7d :: "int \<Rightarrow> cell" where
  "fmt_7d i = IntCell i"

definition fmt_18_8f :: "fl \<Rightarrow> cell" where
  "fmt_18_8f v =
     (case v of Fin x \<Rightarrow> DecCell (round_half_even (x * 10 ^ 8))
      | PInf \<Rightarrow> InfCell True | NInf \<Rightarrow> InfCell False | NaN \<Rightarrow> NanCell)"

definition np_savetxt :: "string \<Rightarrow> cell list list \<Rightarrow> string \<times> cell list list" where
  "np_savetxt header rows = (''# '' @ header, rows)"

text \<open>
  The end of \<open>Radou.PF\<close>: the residue numbers are joined with the rows of \<open>pf_bar\<close> by
  \<open>np.concatenate(..., axis=1)\<close>, which raises ValueError when the numbers of rows differ,
  and written with the formats \<open>['%7d', '%18.8f', '%18.8f']\<close>.
\<close>

definition Radou_PF_write :: "int list \<Rightarrow> (fl \<times> fl) list \<Rightarrow> error + (string \<times> cell list list)" where
  "Radou_PF_write rids pf_bar =
     (if length rids = length pf_bar
      then Inr (np_savetxt ''ResID  Protection factor Std. Dev.''
                  (map2 (\<lambda>rid (pf, sd). [fmt_7d rid, fmt_18_8f pf, fmt_18_8f sd]) rids pf_bar))
      else Inl ValueError)"

text \<open>
  The first part of \<open>Analyze.print_summaries\<close>: the residue numbers of \<open>reslist\<close> are looked
  up in the topology, stacked with the latest cumulative protection factors (\<open>np.stack\<close>
  raises ValueError when the lengths differ) and written with the formats
  \<open>['%7d', '%18.8f']\<close>.
\<close>

fun residue_ids :: "residue list \<Rightarrow> int list \<Rightarrow> error + int list" where
  "residue_ids topo [] = Inr []"
| "residue_ids topo (i # is) =
     (case top_residue topo i of
        Inl e \<Rightarrow> Inl e
      | Inr r \<Rightarrow> (case residue_ids topo is of Inl e \<Rightarrow> Inl e | Inr ids \<Rightarrow> Inr (resSeq r # ids)))"

definition print_summaries_pf :: "analyze \<Rightarrow> residue list \<Rightarrow> error + (string \<times> cell list list)" where
  "print_summaries_pf self topo =
     (case residue_ids topo (a_reslist self) of
        Inl e \<Rightarrow> Inl e
      | Inr rids \<Rightarrow>
          if a_c_pfs self = [] then Inl IndexError
          else if length rids = length (last (a_c_pfs self))
          then Inr (np_savetxt ''ResID  Protection factor''
                      (map2 (\<lambda>rid pf. [fmt_7d rid, fmt_18_8f pf]) rids (last (a_c_pfs self))))
          else Inl ValueError)"

text \<open>
  Modelled from the spec: no reader of these files is part of the sources. The
  specification describes the files as one header line and whitespace-delimited numeric
  rows; reading a file back skips the header and gives the number each field denotes.
\<close>

definition read_cell :: "cell \<Rightarrow> fl" where
  "read_cell c =
     (case c of IntCell i \<Rightarrow> Fin (of_int i) | DecCell n \<Rightarrow> Fin (of_int n / 10 ^ 8)
      | InfCell pos \<Rightarrow> (if pos then PInf else NInf) | NanCell \<Rightarrow> NaN)"

definition read_rows :: "string \<times> cell list list \<Rightarrow> fl list list" where
  "read_rows file = map (map read_cell) (snd file)"

text \<open>A value as it comes back from a file: rounded to eight decimals.\<close>

definition round8 :: "fl \<Rightarrow> fl" where
  "round8 v = (case v of Fin x \<Rightarrow> Fin (of_int (round_half_even (x * 10 ^ 8)) / 10 ^ 8) | _ \<Rightarrow> v)"

section \<open>The formulas as the specification words them\<close>

text \<open>
  The specification's merge step: \<open>PF' = (F\<cdot>PF_cum + f_new\<cdot>PF_new) / (F + f_new)\<close> and
  \<open>SD' = sqrt(F\<^sup>2\<cdot>SD_cum\<^sup>2 + f_new\<^sup>2\<cdot>SD_new\<^sup>2) / (F + f_new)\<close>.
\<close>

definition spec_merge_pf :: "nat \<Rightarrow> nat \<Rightarrow> fl \<Rightarrow> fl \<Rightarrow> fl" where
  "spec_merge_pf F f pf_cum pf_new =
     fl_div (fl_add (fl_mul (fl_of_nat F) pf_cum) (fl_mul (fl_of_nat f) pf_new)) (fl_of_nat (F + f))"

definition spec_merge_sd :: "nat \<Rightarrow> nat \<Rightarrow> fl \<Rightarrow> fl \<Rightarrow> fl" where
  "spec_merge_sd F f sd_cum sd_new =
     fl_div (fl_sqrt (fl_add (fl_mul (fl_of_nat (F\<^sup>2)) (fl_mul sd_cum sd_cum))
                             (fl_mul (fl_of_nat (f\<^sup>2)) (fl_mul sd_new sd_new))))
            (fl_of_nat (F + f))"

text \<open>The specification's kinetics: \<open>fraction(PF, k, t) = 1 - exp(-(k/PF)\<cdot>t)\<close>.\<close>

definition spec_fraction :: "fl \<Rightarrow> fl \<Rightarrow> fl \<Rightarrow> fl" where
  "spec_fraction pf k t = fl_sub (Fin 1) (fl_exp (fl_neg (fl_mul (fl_div k pf) t)))"

text \<open>
  The specification's segment average: the arithmetic mean of the fractions of the
  residues whose index lies in \<open>(start, end]\<close> with the skip-first policy and in
  \<open>[start, end]\<close> without it, where \<open>start\<close> and \<open>end\<close> are the indices that stand for
  the segment's two residue numbers. The mean of finite values is their sum divided by
  their number. With the special values of IEEE 754: the mean of no value is NaN; a NaN
  among the values, or infinities of both signs, give NaN; otherwise an infinity among
  the values gives that infinity.
\<close>

definition seg_bounds :: "(int \<rightharpoonup> nat) \<Rightarrow> nat \<Rightarrow> int \<times> int \<Rightarrow> int \<times> int" where
  "seg_bounds res2idx ntop s =
     ((case res2idx (fst s) of Some i \<Rightarrow> int i | None \<Rightarrow> 0),
      (case res2idx (snd s) of Some i \<Rightarrow> int i | None \<Rightarrow> int ntop - 1))"

definition spec_members :: "bool \<Rightarrow> int list \<Rightarrow> int \<Rightarrow> int \<Rightarrow> nat set" where
  "spec_members skip reslist start stop =
     Set.filter (\<lambda>j. reslist ! j \<in> (if skip then {start<..stop} else {start..stop}))
       {0..<length reslist}"

definition fl_value :: "fl \<Rightarrow> real" where
  "fl_value v = (case v of Fin x \<Rightarrow> x | _ \<Rightarrow> 0)"

definition spec_mean :: "nat set \<Rightarrow> (nat \<Rightarrow> fl) \<Rightarrow> fl" where
  "spec_mean M x =
     (if M = {} then NaN
      else if (\<exists>j\<in>M. x j = NaN) \<or> ((\<exists>j\<in>M. x j = PInf) \<and> (\<exists>j\<in>M. x j = NInf)) then NaN
      else if \<exists>j\<in>M. x j = PInf then PInf
      else if \<exists>j\<in>M. x j = NInf then NInf
      else Fin ((\<Sum>j\<in>M. fl_value (x j)) / real (card M)))"

definition spec_segment_fraction ::
  "bool \<Rightarrow> int list \<Rightarrow> fl list list \<Rightarrow> nat \<Rightarrow> int \<times> int \<Rightarrow> fl" where
  "spec_segment_fraction skip reslist chunk i2 b =
     spec_mean (spec_members skip reslist (fst b) (snd b)) (\<lambda>j. chunk ! j ! i2)"

text \<open>The sum of a list of floats, by the same rules.\<close>

definition fl_total :: "fl list \<Rightarrow> fl" where
  "fl_total vs =
     (if NaN \<in> set vs \<or> (PInf \<in> set vs \<and> NInf \<in> set vs) then NaN
      else if PInf \<in> set vs then PInf
      else if NInf \<in> set vs then NInf
      else Fin (sum_list (map fl_value vs)))"

section \<open>Well-formed Analyze objects and sequences of merges\<close>

text \<open>
  The arrays of an \<open>Analyze\<close> object are rectangular and agree in their shapes: one row
  of \<open>pfs\<close> and one matrix of \<open>resfracs\<close> for each chunk, one column for each residue of
  \<open>reslist\<close>, one fraction for each timepoint. The theorems about \<open>__add__\<close> are stated
  for such objects.
\<close>

definition analyze_shapes :: "analyze \<Rightarrow> bool" where
  "analyze_shapes a =
     (a_pfs a \<noteq> [] \<and> length (a_n_frames a) = length (a_pfs a) \<and>
      (\<forall>row\<in>set (a_pfs a). length row = length (a_reslist a)) \<and>
      length (a_rates a) = length (a_reslist a) \<and>
      a_resfracs a \<noteq> [] \<and>
      (\<forall>m\<in>set (a_resfracs a). length m = length (a_reslist a) \<and>
          (\<forall>row\<in>set m. length row = length (a_times a))) \<and>
      a_c_resfracs a \<noteq> [] \<and>
      (\<forall>m\<in>set (a_c_resfracs a). length m = length (a_reslist a) \<and>
          (\<forall>row\<in>set m. length row = length (a_times a))))"

definition frac_table :: "fl list \<Rightarrow> fl list \<Rightarrow> fl list \<Rightarrow> fl list list" where
  "frac_table pf rates ts =
     map (\<lambda>(p, k). map (\<lambda>t. residue_fraction p k t) ts) (zip pf rates)"

definition running_pfs :: "nat list \<Rightarrow> fl list list \<Rightarrow> fl list list" where
  "running_pfs ns ps = divide_rows (np_cumsum ns) (np_cumsum0 (scale_rows ns ps))"

definition merged :: "analyze \<Rightarrow> analyze \<Rightarrow> analyze" where
  "merged a b =
     a\<lparr>a_n_frames := a_n_frames a @ a_n_frames b,
       a_c_n_frames := np_cumsum (a_n_frames a @ a_n_frames b),
       a_pfs := a_pfs a @ a_pfs b,
       a_c_pfs := running_pfs (a_n_frames a @ a_n_frames b) (a_pfs a @ a_pfs b),
       a_resfracs := a_resfracs a @ a_resfracs b,
       a_c_resfracs := a_c_resfracs a @
          [frac_table (last (running_pfs (a_n_frames a @ a_n_frames b) (a_pfs a @ a_pfs b)))
             (a_rates a) (a_times a)]\<rparr>"

text \<open>
  The latest cumulative fractions are the ones computed from the latest cumulative
  protection factors.
\<close>

definition fractions_fresh :: "analyze \<Rightarrow> bool" where
  "fractions_fresh a =
     (a_c_pfs a \<noteq> [] \<and> length (last (a_c_pfs a)) = length (a_reslist a) \<and>
      last (a_c_resfracs a) = frac_table (last (a_c_pfs a)) (a_rates a) (a_times a))"

text \<open>A sequence of merges \<open>a + x1 + x2 + ...\<close>, stopping at the first exception.\<close>

fun merge_all :: "analyze \<Rightarrow> pyobj list \<Rightarrow> error + analyze" where
  "merge_all a [] = Inr a"
| "merge_all a (x # xs) =
     (case Analyze_add a x of Inl e \<Rightarrow> Inl e | Inr (a', out) \<Rightarrow> merge_all a' xs)"

definition operand_ok :: "nat \<Rightarrow> pyobj \<Rightarrow> bool" where
  "operand_ok ntimes x =
     (case x of AnalyzeObj b \<Rightarrow> analyze_shapes b \<and> length (a_times b) = ntimes | _ \<Rightarrow> True)"

text \<open>
  The cumulative arrays are the ones \<open>__add__\<close> computes from the per-chunk history. An
  object made by \<open>__init__\<close> from one chunk with at least one frame is in this state.
\<close>

definition cumulative_consistent :: "analyze \<Rightarrow> bool" where
  "cumulative_consistent a =
     (a_c_n_frames a = np_cumsum (a_n_frames a) \<and> a_c_pfs a = running_pfs (a_n_frames a) (a_pfs a))"

definition fl_finite :: "fl \<Rightarrow> bool" where
  "fl_finite v = (case v of Fin x \<Rightarrow> True | _ \<Rightarrow> False)"

definition sd_value :: "fl \<Rightarrow> bool" where
  "sd_value v = (case v of Fin x \<Rightarrow> 0 \<le> x | PInf \<Rightarrow> True | NInf \<Rightarrow> False | NaN \<Rightarrow> True)"

section \<open>Example objects\<close>

definition ex_radou :: radou where
  "ex_radou = \<lparr>r_reslist = [1], r_n_frames = 10, r_pfs = [(Fin 100, Fin 0)],
     r_pf_byframe = [[Fin 100]], r_rates = [Fin 1], r_resfracs = [[Fin 0]]\<rparr>"

definition ex_ph :: ph where
  "ex_ph = \<lparr>p_reslist = [1], p_n_frames = 3, p_watcontacts = [[0, 0, 2]],
     p_pfs = [(Fin 2, Fin 0)], p_pf_byframe = [[Fin 2, Fin 2, Fin 2]], p_rates = [Fin 1],
     p_resfracs = [[Fin 0]]\<rparr>"

definition ex_analyze :: analyze where
  "ex_analyze = \<lparr>a_reslist = [1], a_resfracs = [[[Fin 0]]], a_c_resfracs = [[[Fin 0]]],
     a_pfs = [[Fin 100]], a_c_pfs = [[Fin 100]], a_n_frames = [10], a_c_n_frames = [10],
     a_rates = [Fin 0], a_times = [Fin 1], a_skip_first = True, a_segres = [],
     a_expfracs = None\<rparr>"

text \<open>Chunks of 10 frames with a protection factor of 300.\<close>

definition ex_radou_300 :: radou where
  "ex_radou_300 = \<lparr>r_reslist = [1], r_n_frames = 10, r_pfs = [(Fin 300, Fin 0)],
     r_pf_byframe = [[Fin 300]], r_rates = [Fin 1], r_resfracs = [[Fin 0]]\<rparr>"

definition ex_analyze_300 :: analyze where
  "ex_analyze_300 = \<lparr>a_reslist = [1], a_resfracs = [[[Fin 0]]], a_c_resfracs = [[[Fin 0]]],
     a_pfs = [[Fin 300]], a_c_pfs = [[Fin 300]], a_n_frames = [10], a_c_n_frames = [10],
     a_rates = [Fin 0], a_times = [Fin 1], a_skip_first = True, a_segres = [],
     a_expfracs = None\<rparr>"

text \<open>A chunk of zero frames for one residue, with the values \<open>Radou.PF\<close> computes for it.\<close>

definition ex_radou_empty :: radou where
  "ex_radou_empty = \<lparr>r_reslist = [1], r_n_frames = 0,
     r_pfs = radou_pf_bar (radou_pf_byframe (Fin 2) (Fin (35 / 100)) [[]] [[]]),
     r_pf_byframe = radou_pf_byframe (Fin 2) (Fin (35 / 100)) [[]] [[]],
     r_rates = [Fin 1], r_resfracs = [[Fin 0]]\<rparr>"

text \<open>Chunks of zero frames whose values are finite numbers.\<close>

definition ex_radou_zero :: radou where
  "ex_radou_zero = \<lparr>r_reslist = [1], r_n_frames = 0, r_pfs = [(Fin 1, Fin 0)],
     r_pf_byframe = [[]], r_rates = [Fin 1], r_resfracs = [[Fin 0]]\<rparr>"

definition ex_ph_empty :: ph where
  "ex_ph_empty = \<lparr>p_reslist = [1], p_n_frames = 0, p_watcontacts = [[]],
     p_pfs = PH_PF_update [[]], p_pf_byframe = [[]], p_rates = [Fin 1],
     p_resfracs = [[Fin 0]]\<rparr>"

definition ex_analyze_zero :: analyze where
  "ex_analyze_zero = \<lparr>a_reslist = [1], a_resfracs = [[[Fin 0]]], a_c_resfracs = [[[Fin 0]]],
     a_pfs = [[Fin 1]], a_c_pfs = [[Fin 1]], a_n_frames = [0], a_c_n_frames = [0],
     a_rates = [Fin 0], a_times = [Fin 1], a_skip_first = True, a_segres = [],
     a_expfracs = None\<rparr>"

text \<open>A topology of three protein residues numbered 10 to 12, and an object with one chunk.\<close>

definition ex_top :: "residue list" where
  "ex_top = [\<lparr>res_name = ''ALA'', resSeq = 10, is_protein = True\<rparr>,
             \<lparr>res_name = ''GLY'', resSeq = 11, is_protein = True\<rparr>,
             \<lparr>res_name = ''SER'', resSeq = 12, is_protein = True\<rparr>]"

definition ex_seg_analyze :: analyze where
  "ex_seg_analyze = \<lparr>a_reslist = [0, 1, 2],
     a_resfracs = [[[Fin 1], [Fin 2], [Fin 4]]], a_c_resfracs = [[[Fin 1], [Fin 2], [Fin 4]]],
     a_pfs = [[Fin 1, Fin 1, Fin 1]], a_c_pfs = [[Fin 1, Fin 1, Fin 1]],
     a_n_frames = [10], a_c_n_frames = [10],
     a_rates = [Fin 1, Fin 1, Fin 1], a_times = [Fin 1], a_skip_first = True, a_segres = [],
     a_expfracs = None\<rparr>"

text \<open>An object with one timepoint and the segments (10, 12) and (11, 12).\<close>

definition ex_exp_analyze :: analyze where
  "ex_exp_analyze = ex_seg_analyze\<lparr>a_segres := [(10, 12), (11, 12)]\<rparr>"

section \<open>Operands of another type\<close>

text \<open>
  C10. For an \<open>Analyze\<close>, \<open>Radou\<close> or \<open>PH\<close> object and a right-hand operand that is not an
  instance of the same class, \<open>+\<close> returns the left operand unchanged and raises no error:
  the operand of the wrong type is ignored, not rejected.
\<close>

theorem add_ignores_other_types:
  "(\<not> isinstance x Radou \<longrightarrow> Radou_add d1 r x = (r, None)) \<and>
   (\<not> isinstance x PH \<longrightarrow> PH_add d2 p x = (p, None)) \<and>
   (\<not> isinstance x Analyze \<longrightarrow> Analyze_add a x = Inr (a, []))"
  by (cases x) (simp_all add: Radou_add_def PH_add_def Analyze_add_def)

theorem add_ignores_other_types_witness:
  "\<not> isinstance (PHObj ex_ph) Radou \<and> \<not> isinstance OtherObj PH \<and> \<not> isinstance (RadouObj ex_radou) Analyze \<and>
   Radou_add r_resfracs ex_radou (PHObj ex_ph) = (ex_radou, None) \<and>
   PH_add p_resfracs ex_ph OtherObj = (ex_ph, None) \<and>
   Analyze_add ex_analyze (RadouObj ex_radou) = Inr (ex_analyze, [])"
  using add_ignores_other_types [of "PHObj ex_ph" r_resfracs ex_radou]
        add_ignores_other_types [of OtherObj _ _ p_resfracs ex_ph]
        add_ignores_other_types [of "RadouObj ex_radou" _ _ _ _ ex_analyze]
  by simp

section \<open>Operands that do not match\<close>

text \<open>
  C3, the claim as the specification states it fails: two \<open>Analyze\<close> objects whose rate
  vectors differ are not rejected with an error; \<open>__add__\<close> prints a message and returns
  the left operand.
\<close>

theorem analyze_add_mismatch_returns:
  "\<not> np_array_equal (a_rates ex_analyze) (a_rates (ex_analyze\<lparr>a_rates := [Fin 2]\<rparr>)) \<and>
   Analyze_add ex_analyze (AnalyzeObj (ex_analyze\<lparr>a_rates := [Fin 2]\<rparr>)) = Inr (ex_analyze, [differ_message])"
  by (simp add: Analyze_add_def ex_analyze_def np_array_equal_def fl_eq_def)

text \<open>
  C3, amended. \<open>Radou.__add__\<close> and \<open>PH.__add__\<close> raise \<open>HDX_Error\<close> when the rate vectors
  of the operands differ, and \<open>self\<close> is left as it was. \<open>Analyze.__add__\<close> raises nothing
  when the residue lists or the rate vectors differ: it prints one message and returns
  \<open>self\<close> unchanged. No operand is truncated or padded.
\<close>

theorem add_mismatch:
  "(\<not> np_array_equal (r_rates r) (r_rates r') \<longrightarrow>
      Radou_add d1 r (RadouObj r') = (r, Some HDX_Error)) \<and>
   (\<not> np_array_equal (p_rates p) (p_rates p') \<longrightarrow>
      PH_add d2 p (PHObj p') = (p, Some HDX_Error)) \<and>
   (a_reslist a \<noteq> a_reslist a' \<or> \<not> np_array_equal (a_rates a) (a_rates a') \<longrightarrow>
      Analyze_add a (AnalyzeObj a') = Inr (a, [differ_message]))"
  by (auto simp: Radou_add_def PH_add_def Analyze_add_def)

theorem add_mismatch_witness:
  "\<not> np_array_equal (r_rates ex_radou) (r_rates (ex_radou\<lparr>r_rates := [Fin 2]\<rparr>)) \<and>
   Radou_add r_resfracs ex_radou (RadouObj (ex_radou\<lparr>r_rates := [Fin 2]\<rparr>)) = (ex_radou, Some HDX_Error) \<and>
   \<not> np_array_equal (p_rates ex_ph) (p_rates (ex_ph\<lparr>p_rates := [Fin 2]\<rparr>)) \<and>
   PH_add p_resfracs ex_ph (PHObj (ex_ph\<lparr>p_rates := [Fin 2]\<rparr>)) = (ex_ph, Some HDX_Error) \<and>
   a_reslist ex_analyze \<noteq> a_reslist (ex_analyze\<lparr>a_reslist := [1, 2]\<rparr>) \<and>
   Analyze_add ex_analyze (AnalyzeObj (ex_analyze\<lparr>a_reslist := [1, 2]\<rparr>)) = Inr (ex_analyze, [differ_message])"
  using add_mismatch [of ex_radou "ex_radou\<lparr>r_rates := [Fin 2]\<rparr>" r_resfracs ex_ph "ex_ph\<lparr>p_rates := [Fin 2]\<rparr>"
          p_resfracs ex_analyze "ex_analyze\<lparr>a_reslist := [1, 2]\<rparr>"]
  by (simp add: ex_radou_def ex_ph_def ex_analyze_def np_array_equal_def fl_eq_def)

section \<open>The water-contact model\<close>

lemma open_closed_partition: "opencount row + closedcount row = length row"
  unfolding opencount_def closedcount_def
  using sum_length_filter_compl [of "\<lambda>c. 1 < c" row] by (simp add: not_less)

lemma opencount_append: "opencount (a @ b) = opencount a + opencount b"
  by (simp add: opencount_def)

lemma closedcount_append: "closedcount (a @ b) = closedcount a + closedcount b"
  by (simp add: closedcount_def)

lemma PH_PF_update_nth:
  "i < length wc \<Longrightarrow> PH_PF_update wc ! i =
     (fl_div (fl_of_nat (closedcount (wc ! i))) (fl_of_nat (opencount (wc ! i))), Fin 0)"
  by (simp add: PH_PF_update_def)

lemma ratio_value:
  "fl_div (fl_of_nat c) (fl_of_nat n) =
     (if n \<noteq> 0 then Fin (real c / real n) else if c = 0 then NaN else PInf)"
  by (simp add: fl_of_nat_def)

text \<open>
  C4, the claim as the specification states it fails: a residue with no accumulated frame
  has an open count of zero, and its protection factor is NaN, not +infinity.
\<close>

theorem ph_no_frames_nan:
  "opencount [] = 0 \<and> PH_PF_update [[]] = [(NaN, Fin 0)]"
  by (simp add: opencount_def closedcount_def PH_PF_update_def fl_of_nat_def)

text \<open>
  C4, amended. For every residue of the water-contact model: a frame counts as open when
  its water-contact count is greater than 1 and as closed otherwise; the protection
  factor is the closed count divided by the open count; with an open count of zero it is
  +infinity when at least one frame is closed, and NaN when no frame was accumulated;
  the standard deviation is 0. A merge of two objects with equal rates raises nothing and
  takes the ratio over the joined frames: the closed counts and the open counts of the
  two objects add up. Contacts [0, 0, 2] give 2 closed, 1 open, PF 2 and SD 0.
\<close>

theorem ph_ratio_of_totals:
  "opencount row = length (filter (\<lambda>c. 1 < c) row) \<and>
   closedcount row = length (filter (\<lambda>c. \<not> 1 < c) row) \<and>
   opencount row + closedcount row = length row \<and>
   (i < length wc \<longrightarrow>
      PH_PF_update wc ! i =
        (if opencount (wc ! i) \<noteq> 0 then Fin (real (closedcount (wc ! i)) / real (opencount (wc ! i)))
         else if closedcount (wc ! i) = 0 then NaN else PInf, Fin 0)) \<and>
   (np_array_equal (p_rates p) (p_rates p') \<and> length (p_watcontacts p) = length (p_watcontacts p') \<and>
    length (p_pf_byframe p) = length (p_pf_byframe p') \<longrightarrow>
      (\<exists>s. PH_add d p (PHObj p') = (s, None) \<and>
           p_n_frames s = p_n_frames p + p_n_frames p' \<and>
           length (p_pfs s) = length (p_watcontacts p) \<and>
           (\<forall>j<length (p_watcontacts p).
              p_pfs s ! j =
                (fl_div (fl_of_nat (closedcount (p_watcontacts p ! j) + closedcount (p_watcontacts p' ! j)))
                        (fl_of_nat (opencount (p_watcontacts p ! j) + opencount (p_watcontacts p' ! j))),
                 Fin 0)))) \<and>
   closedcount [0, 0, 2] = 2 \<and> opencount [0, 0, 2] = 1 \<and> PH_PF_update [[0, 0, 2]] = [(Fin 2, Fin 0)]"
proof (intro conjI impI)
  show "opencount row + closedcount row = length row" by (rule open_closed_partition)
next
  assume "i < length wc"
  then show "PH_PF_update wc ! i =
        (if opencount (wc ! i) \<noteq> 0 then Fin (real (closedcount (wc ! i)) / real (opencount (wc ! i)))
         else if closedcount (wc ! i) = 0 then NaN else PInf, Fin 0)"
    by (simp add: PH_PF_update_nth ratio_value)
next
  assume h: "np_array_equal (p_rates p) (p_rates p') \<and> length (p_watcontacts p) = length (p_watcontacts p') \<and>
    length (p_pf_byframe p) = length (p_pf_byframe p')"
  then show "\<exists>s. PH_add d p (PHObj p') = (s, None) \<and>
           p_n_frames s = p_n_frames p + p_n_frames p' \<and>
           length (p_pfs s) = length (p_watcontacts p) \<and>
           (\<forall>j<length (p_watcontacts p).
              p_pfs s ! j =
                (fl_div (fl_of_nat (closedcount (p_watcontacts p ! j) + closedcount (p_watcontacts p' ! j)))
                        (fl_of_nat (opencount (p_watcontacts p ! j) + opencount (p_watcontacts p' ! j))),
                 Fin 0))"
    by (simp add: PH_add_def np_concatenate1_def Let_def PH_PF_update_def opencount_append closedcount_append)
qed (simp_all add: opencount_def closedcount_def PH_PF_update_def fl_of_nat_def not_less)

theorem ph_ratio_of_totals_witness:
  "PH_PF_update [[2, 2]] ! 0 = (Fin 0, Fin 0) \<and> PH_PF_update [[0, 1]] ! 0 = (PInf, Fin 0) \<and>
   (\<exists>s. PH_add p_resfracs ex_ph (PHObj ex_ph) = (s, None) \<and> p_n_frames s = 6 \<and>
        p_pfs s ! 0 = (Fin 2, Fin 0))"
  using ph_ratio_of_totals [of "[]" 0 "[[2, 2]]" ex_ph ex_ph p_resfracs]
        ph_ratio_of_totals [of "[]" 0 "[[0, 1]]" ex_ph ex_ph p_resfracs]
  by (simp add: ex_ph_def np_array_equal_def fl_eq_def opencount_def closedcount_def fl_of_nat_def) blast

section \<open>Array lemmas\<close>

lemma ncols_rect: "m \<noteq> [] \<Longrightarrow> \<forall>row\<in>set m. length row = c \<Longrightarrow> ncols m = c"
  by (cases m) (simp_all add: ncols_def)

lemma tshape_rect:
  "a \<noteq> [] \<Longrightarrow> \<forall>m\<in>set a. length m = r \<and> (\<forall>row\<in>set m. length row = c) \<Longrightarrow>
   tshape a = (r, if r = 0 then 0 else c)"
  by (cases a) (auto simp: tshape_def ncols_def split: list.splits)

lemma length_scale_rows: "length (scale_rows ns rs) = length rs"
  by (induction ns rs rule: scale_rows.induct) simp_all

lemma length_divide_rows: "length (divide_rows ns rs) = length rs"
  by (induction ns rs rule: divide_rows.induct) simp_all

lemma length_cumsum_rows_from: "length (cumsum_rows_from acc rs) = length rs"
  by (induction rs arbitrary: acc) simp_all

lemma length_np_cumsum0: "length (np_cumsum0 m) = length m"
  by (cases m) (simp_all add: np_cumsum0_def length_cumsum_rows_from)

lemma length_np_cumsum: "length (np_cumsum ns) = length ns"
proof -
  have "length (cumsum_nat_from acc ns) = length ns" for acc
    by (induction ns arbitrary: acc) simp_all
  then show ?thesis by (simp add: np_cumsum_def)
qed

lemma scale_rows_rect:
  "\<forall>row\<in>set rs. length row = c \<Longrightarrow> \<forall>row\<in>set (scale_rows ns rs). length row = c"
  by (induction ns rs rule: scale_rows.induct) auto

lemma divide_rows_rect:
  "\<forall>row\<in>set rs. length row = c \<Longrightarrow> \<forall>row\<in>set (divide_rows ns rs). length row = c"
  by (induction ns rs rule: divide_rows.induct) auto

lemma cumsum_rows_from_rect:
  "length acc = c \<Longrightarrow> \<forall>row\<in>set rs. length row = c \<Longrightarrow>
   \<forall>row\<in>set (cumsum_rows_from acc rs). length row = c"
proof (induction rs arbitrary: acc)
  case Nil
  then show ?case by simp
next
  case (Cons r rs)
  have l: "length (map2 fl_add acc r) = c" using Cons.prems by simp
  have "\<forall>row\<in>set rs. length row = c" using Cons.prems(2) by simp
  from Cons.IH [OF l this] show ?case using l by simp
qed

lemma np_cumsum0_rect:
  "\<forall>row\<in>set m. length row = c \<Longrightarrow> \<forall>row\<in>set (np_cumsum0 m). length row = c"
proof (cases m)
  case Nil
  then show ?thesis by (simp add: np_cumsum0_def)
next
  case (Cons r rs)
  assume a: "\<forall>row\<in>set m. length row = c"
  then have "\<forall>row\<in>set (cumsum_rows_from r rs). length row = c"
    using Cons cumsum_rows_from_rect [of r c rs] by simp
  then show ?thesis using Cons a by (simp add: np_cumsum0_def)
qed

lemma length_concat_rect: "\<forall>row\<in>set m. length row = c \<Longrightarrow> length (concat m) = length m * c"
  by (induction m) simp_all

lemma take_drop_concat_rect:
  "\<forall>row\<in>set m. length row = c \<Longrightarrow> i < length m \<Longrightarrow> take c (drop (i * c) (concat m)) = m ! i"
proof (induction m arbitrary: i)
  case Nil
  then show ?case by simp
next
  case (Cons row rows)
  show ?case
  proof (cases i)
    case 0
    then show ?thesis using Cons.prems by simp
  next
    case (Suc j)
    have r: "length row = c" and rs: "\<forall>row\<in>set rows. length row = c" and j: "j < length rows"
      using Cons.prems Suc by auto
    have "drop (Suc j * c) (row @ concat rows) = drop (j * c) (concat rows)"
      using r by simp
    then show ?thesis using Cons.IH [OF rs j] Suc by simp
  qed
qed

lemma np_reshape_rect:
  "length m = r \<Longrightarrow> \<forall>row\<in>set m. length row = c \<Longrightarrow> np_reshape r c m = Inr m"
proof -
  assume l: "length m = r" and rect: "\<forall>row\<in>set m. length row = c"
  have "map (\<lambda>i. take c (drop (i * c) (concat m))) [0..<r] = m"
  proof (rule nth_equalityI)
    show "length (map (\<lambda>i. take c (drop (i * c) (concat m))) [0..<r]) = length m"
      using l by simp
  next
    fix i assume "i < length (map (\<lambda>i. take c (drop (i * c) (concat m))) [0..<r])"
    then have "i < length m" using l by simp
    then show "map (\<lambda>i. take c (drop (i * c) (concat m))) [0..<r] ! i = m ! i"
      using l take_drop_concat_rect [OF rect, of i] by simp
  qed
  then show ?thesis using l length_concat_rect [OF rect] by (simp add: np_reshape_def)
qed

lemma fill_residues_result:
  assumes "i1 + length rest \<le> length tab"
    and "\<forall>r. i1 \<le> r \<and> r < i1 + length rest \<longrightarrow> i2 < length (tab ! r)"
  shows "\<exists>tab'. fill_residues t i2 i1 rest tab = Inr tab' \<and> length tab' = length tab \<and>
     (\<forall>r<length tab. length (tab' ! r) = length (tab ! r) \<and>
        (\<forall>c<length (tab ! r). tab' ! r ! c =
           (if i1 \<le> r \<and> r < i1 + length rest \<and> c = i2
            then residue_fraction (fst (rest ! (r - i1))) (snd (rest ! (r - i1))) t
            else tab ! r ! c)))"
  using assms
proof (induction rest arbitrary: i1 tab)
  case Nil
  then show ?case by auto
next
  case (Cons pk rest)
  obtain pf k where pk: "pk = (pf, k)" by (cases pk)
  let ?v = "residue_fraction pf k t"
  let ?tab1 = "tab[i1 := (tab ! i1)[i2 := ?v]]"
  have i1: "i1 < length tab" and i2: "i2 < length (tab ! i1)"
    using Cons.prems by auto
  have sc: "set_cell tab i1 i2 ?v = Inr ?tab1"
    using i1 i2 by (simp add: set_cell_def)
  have p1: "Suc i1 + length rest \<le> length ?tab1" using Cons.prems(1) by simp
  have p2: "\<forall>r. Suc i1 \<le> r \<and> r < Suc i1 + length rest \<longrightarrow> i2 < length (?tab1 ! r)"
    using Cons.prems(2) by (auto simp: nth_list_update)
  from Cons.IH [OF p1 p2] obtain tab' where
    f: "fill_residues t i2 (Suc i1) rest ?tab1 = Inr tab'" and l: "length tab' = length ?tab1"
    and c: "\<forall>r<length ?tab1. length (tab' ! r) = length (?tab1 ! r) \<and>
        (\<forall>c<length (?tab1 ! r). tab' ! r ! c =
           (if Suc i1 \<le> r \<and> r < Suc i1 + length rest \<and> c = i2
            then residue_fraction (fst (rest ! (r - Suc i1))) (snd (rest ! (r - Suc i1))) t
            else ?tab1 ! r ! c))"
    by blast
  have res: "fill_residues t i2 i1 (pk # rest) tab = Inr tab'"
    using sc f pk by simp
  have "length (tab' ! r) = length (tab ! r) \<and>
        (\<forall>c<length (tab ! r). tab' ! r ! c =
           (if i1 \<le> r \<and> r < i1 + length (pk # rest) \<and> c = i2
            then residue_fraction (fst ((pk # rest) ! (r - i1))) (snd ((pk # rest) ! (r - i1))) t
            else tab ! r ! c))" if r: "r < length tab" for r
  proof (cases "r = i1")
    case True
    then show ?thesis using c [rule_format, of r] r i1 pk by (simp add: nth_list_update)
  next
    case False
    have len: "length (?tab1 ! r) = length (tab ! r)" using False by (simp add: nth_list_update)
    have val: "?tab1 ! r = tab ! r" using False by simp
    show ?thesis
    proof (cases "i1 < r")
      case True
      then obtain d where d: "r - i1 = Suc d" "r - Suc i1 = d"
        by (metis Suc_diff_Suc)
      show ?thesis using c [rule_format, of r] r True val d by auto
    next
      case False
      then show ?thesis using c [rule_format, of r] r val \<open>r \<noteq> i1\<close> by auto
    qed
  qed
  then show ?case using res l by simp
qed

lemma fill_times_result:
  assumes "length pk \<le> length tab"
    and "\<forall>r<length pk. i2 + length ts \<le> length (tab ! r)"
  shows "\<exists>tab'. fill_times pk i2 ts tab = Inr tab' \<and> length tab' = length tab \<and>
     (\<forall>r<length tab. length (tab' ! r) = length (tab ! r) \<and>
        (\<forall>c<length (tab ! r). tab' ! r ! c =
           (if r < length pk \<and> i2 \<le> c \<and> c < i2 + length ts
            then residue_fraction (fst (pk ! r)) (snd (pk ! r)) (ts ! (c - i2))
            else tab ! r ! c)))"
  using assms
proof (induction ts arbitrary: i2 tab)
  case Nil
  then show ?case by auto
next
  case (Cons t ts)
  have q1: "0 + length pk \<le> length tab" using Cons.prems(1) by simp
  have q2: "\<forall>r. 0 \<le> r \<and> r < 0 + length pk \<longrightarrow> i2 < length (tab ! r)"
    using Cons.prems(2) by auto
  from fill_residues_result [OF q1 q2, of t] obtain tab1 where
    f1: "fill_residues t i2 0 pk tab = Inr tab1" and l1: "length tab1 = length tab"
    and c1: "\<forall>r<length tab. length (tab1 ! r) = length (tab ! r) \<and>
        (\<forall>c<length (tab ! r). tab1 ! r ! c =
           (if r < length pk \<and> c = i2 then residue_fraction (fst (pk ! r)) (snd (pk ! r)) t
            else tab ! r ! c))"
    by auto
  have p1: "length pk \<le> length tab1" using l1 Cons.prems(1) by simp
  have p2: "\<forall>r<length pk. Suc i2 + length ts \<le> length (tab1 ! r)"
    using c1 Cons.prems by auto
  from Cons.IH [OF p1 p2] obtain tab' where
    f: "fill_times pk (Suc i2) ts tab1 = Inr tab'" and l: "length tab' = length tab1"
    and c: "\<forall>r<length tab1. length (tab' ! r) = length (tab1 ! r) \<and>
        (\<forall>c<length (tab1 ! r). tab' ! r ! c =
           (if r < length pk \<and> Suc i2 \<le> c \<and> c < Suc i2 + length ts
            then residue_fraction (fst (pk ! r)) (snd (pk ! r)) (ts ! (c - Suc i2))
            else tab1 ! r ! c))"
    by blast
  have res: "fill_times pk i2 (t # ts) tab = Inr tab'" using f1 f by simp
  have "length (tab' ! r) = length (tab ! r) \<and>
        (\<forall>c<length (tab ! r). tab' ! r ! c =
           (if r < length pk \<and> i2 \<le> c \<and> c < i2 + length (t # ts)
            then residue_fraction (fst (pk ! r)) (snd (pk ! r)) ((t # ts) ! (c - i2))
            else tab ! r ! c))" if r: "r < length tab" for r
  proof (intro conjI allI impI)
    show "length (tab' ! r) = length (tab ! r)" using c c1 l1 r by simp
  next
    fix col assume col: "col < length (tab ! r)"
    have a: "tab' ! r ! col =
           (if r < length pk \<and> Suc i2 \<le> col \<and> col < Suc i2 + length ts
            then residue_fraction (fst (pk ! r)) (snd (pk ! r)) (ts ! (col - Suc i2))
            else tab1 ! r ! col)"
      using c c1 l1 r col by simp
    have b: "tab1 ! r ! col =
           (if r < length pk \<and> col = i2 then residue_fraction (fst (pk ! r)) (snd (pk ! r)) t
            else tab ! r ! col)"
      using c1 r col by simp
    show "tab' ! r ! col =
           (if r < length pk \<and> i2 \<le> col \<and> col < i2 + length (t # ts)
            then residue_fraction (fst (pk ! r)) (snd (pk ! r)) ((t # ts) ! (col - i2))
            else tab ! r ! col)"
    proof (cases "col = i2")
      case True
      then show ?thesis using a b by simp
    next
      case False
      show ?thesis
      proof (cases "i2 < col")
        case True
        then obtain d where d: "col - i2 = Suc d" "col - Suc i2 = d"
          by (metis Suc_diff_Suc)
        show ?thesis using a b True d by auto
      next
        case False
        then show ?thesis using a b \<open>col \<noteq> i2\<close> by auto
      qed
    qed
  qed
  then show ?case using res l l1 by simp
qed

lemma fill_times_zeros:
  assumes "length pf = n" "length rates = n"
  shows "fill_times (zip pf rates) 0 ts (np_zeros n (length ts)) = Inr (frac_table pf rates ts)"
proof -
  let ?tab = "np_zeros n (length ts)"
  have p1: "length (zip pf rates) \<le> length ?tab" using assms by (simp add: np_zeros_def)
  have p2: "\<forall>r<length (zip pf rates). 0 + length ts \<le> length (?tab ! r)"
    using assms by (simp add: np_zeros_def)
  from fill_times_result [OF p1 p2] obtain tab' where
    f: "fill_times (zip pf rates) 0 ts ?tab = Inr tab'" and l: "length tab' = length ?tab"
    and c: "\<forall>r<length ?tab. length (tab' ! r) = length (?tab ! r) \<and>
        (\<forall>c<length (?tab ! r). tab' ! r ! c =
           (if r < length (zip pf rates) \<and> 0 \<le> c \<and> c < 0 + length ts
            then residue_fraction (fst (zip pf rates ! r)) (snd (zip pf rates ! r)) (ts ! (c - 0))
            else ?tab ! r ! c))"
    by blast
  have "tab' = frac_table pf rates ts"
  proof (rule nth_equalityI)
    show "length tab' = length (frac_table pf rates ts)"
      using l assms by (simp add: frac_table_def np_zeros_def)
  next
    fix r assume "r < length tab'"
    then have r: "r < n" using l by (simp add: np_zeros_def)
    show "tab' ! r = frac_table pf rates ts ! r"
    proof (rule nth_equalityI)
      show "length (tab' ! r) = length (frac_table pf rates ts ! r)"
        using c r assms by (simp add: frac_table_def np_zeros_def)
    next
      fix col assume "col < length (tab' ! r)"
      then have col: "col < length ts" using c r by (simp add: np_zeros_def)
      show "tab' ! r ! col = frac_table pf rates ts ! r ! col"
        using c r col assms by (simp add: frac_table_def np_zeros_def)
    qed
  qed
  then show ?thesis using f by simp
qed

lemma frac_table_shape:
  "length pf = n \<Longrightarrow> length rates = n \<Longrightarrow>
   length (frac_table pf rates ts) = n \<and> (\<forall>row\<in>set (frac_table pf rates ts). length row = length ts)"
  by (auto simp: frac_table_def)

lemma running_pfs_shape:
  assumes "ps \<noteq> []" "\<forall>row\<in>set ps. length row = n"
  shows "running_pfs ns ps \<noteq> [] \<and> length (running_pfs ns ps) = length ps \<and>
         (\<forall>row\<in>set (running_pfs ns ps). length row = n)"
proof -
  have "length (running_pfs ns ps) = length ps"
    by (simp add: running_pfs_def length_divide_rows length_np_cumsum0 length_scale_rows)
  moreover have "\<forall>row\<in>set (running_pfs ns ps). length row = n"
    unfolding running_pfs_def
    by (intro divide_rows_rect np_cumsum0_rect scale_rows_rect assms(2))
  ultimately show ?thesis using assms(1) by auto
qed

lemma Analyze_add_merged:
  assumes sa: "analyze_shapes a" and sb: "analyze_shapes b"
    and rl: "a_reslist a = a_reslist b" and rt: "np_array_equal (a_rates a) (a_rates b)"
    and tl: "length (a_times b) = length (a_times a)"
  shows "Analyze_add a (AnalyzeObj b) = Inr (merged a b, [])"
proof -
  let ?R = "length (a_reslist a)" and ?T = "length (a_times a)"
  let ?ns = "a_n_frames a @ a_n_frames b" and ?ps = "a_pfs a @ a_pfs b"
  have c1: "np_concatenate0 (a_pfs a) (a_pfs b) = Inr ?ps"
    using sa sb rl ncols_rect [of "a_pfs a" ?R] ncols_rect [of "a_pfs b" ?R]
    by (simp add: np_concatenate0_def analyze_shapes_def)
  have ta: "tshape (a_resfracs a) = (?R, if ?R = 0 then 0 else ?T)"
    using sa by (intro tshape_rect) (simp_all add: analyze_shapes_def)
  have tb: "tshape (a_resfracs b) = (?R, if ?R = 0 then 0 else ?T)"
    using sb rl tl by (intro tshape_rect) (simp_all add: analyze_shapes_def)
  have c2: "np_concatenate0_3d (a_resfracs a) (a_resfracs b) = Inr (a_resfracs a @ a_resfracs b)"
    using ta tb by (simp add: np_concatenate0_3d_def)
  have ps: "?ps \<noteq> []" "\<forall>row\<in>set ?ps. length row = ?R"
    using sa sb rl by (auto simp: analyze_shapes_def)
  note rp = running_pfs_shape [OF ps, of ?ns]
  have lastlen: "length (last (running_pfs ?ns ?ps)) = ?R"
    using rp by (metis last_in_set)
  have hd_shape: "length (hd (a_resfracs a @ a_resfracs b)) = ?R"
      "?R \<noteq> 0 \<Longrightarrow> ncols (hd (a_resfracs a @ a_resfracs b)) = ?T"
    using sa by (auto simp: analyze_shapes_def ncols_def neq_Nil_conv split: list.splits)
  have zeros: "np_zeros (length (hd (a_resfracs a @ a_resfracs b))) (ncols (hd (a_resfracs a @ a_resfracs b)))
          = np_zeros ?R ?T"
    using hd_shape by (cases "?R = 0") (simp_all add: np_zeros_def)
  have rates: "length (a_rates a) = ?R" using sa by (simp add: analyze_shapes_def)
  let ?block = "frac_table (last (running_pfs ?ns ?ps)) (a_rates a) (a_times a)"
  have fill: "fill_times (zip (last (running_pfs ?ns ?ps)) (a_rates a)) 0 (a_times a) (np_zeros ?R ?T) = Inr ?block"
    by (rule fill_times_zeros [OF lastlen rates])
  note fs = frac_table_shape [OF lastlen rates, of "a_times a"]
  have resh: "np_reshape ?R ?T ?block = Inr ?block"
    using fs by (intro np_reshape_rect) auto
  have tc: "tshape (a_c_resfracs a) = (?R, if ?R = 0 then 0 else ?T)"
    using sa by (intro tshape_rect) (simp_all add: analyze_shapes_def)
  have tblk: "tshape [?block] = (?R, if ?R = 0 then 0 else ?T)"
    using fs by (intro tshape_rect) auto
  have c3: "np_concatenate0_3d (a_c_resfracs a) [?block] = Inr (a_c_resfracs a @ [?block])"
    using tc tblk by (simp add: np_concatenate0_3d_def)
  have ne: "a_resfracs a @ a_resfracs b \<noteq> []" "running_pfs ?ns ?ps \<noteq> []"
    using sa rp by (auto simp: analyze_shapes_def)
  show ?thesis
    using rl rt c1 c2 c3 ne zeros fill resh
    by (simp add: Analyze_add_def Let_def merged_def running_pfs_def [symmetric])
qed

section \<open>Fractions are recomputed from the cumulative protection factors\<close>

lemma residue_fraction_spec: "residue_fraction pf k t = spec_fraction pf k t"
proof -
  have "fl_mul (fl_div (fl_neg k) pf) t = fl_neg (fl_mul (fl_div k pf) t)"
    by (cases k; cases pf; cases t) auto
  then show ?thesis by (simp add: residue_fraction_def spec_fraction_def)
qed

lemma frac_table_nth:
  "r < length pf \<Longrightarrow> r < length rates \<Longrightarrow> c < length ts \<Longrightarrow>
   frac_table pf rates ts ! r ! c = spec_fraction (pf ! r) (rates ! r) (ts ! c)"
  by (simp add: frac_table_def residue_fraction_spec)

lemma merged_fields:
  "a_reslist (merged a b) = a_reslist a" "a_rates (merged a b) = a_rates a"
  "a_times (merged a b) = a_times a"
  "a_c_pfs (merged a b) = running_pfs (a_n_frames a @ a_n_frames b) (a_pfs a @ a_pfs b)"
  "a_c_n_frames (merged a b) = np_cumsum (a_n_frames a @ a_n_frames b)"
  "last (a_c_resfracs (merged a b)) =
     frac_table (last (a_c_pfs (merged a b))) (a_rates a) (a_times a)"
  by (simp_all add: merged_def)

lemma merged_shapes:
  assumes "analyze_shapes a" "analyze_shapes b" "a_reslist a = a_reslist b"
    "length (a_times b) = length (a_times a)"
  shows "analyze_shapes (merged a b)"
proof -
  let ?R = "length (a_reslist a)"
  have ps: "a_pfs a @ a_pfs b \<noteq> []" "\<forall>row\<in>set (a_pfs a @ a_pfs b). length row = ?R"
    using assms by (auto simp: analyze_shapes_def)
  note rp = running_pfs_shape [OF ps, of "a_n_frames a @ a_n_frames b"]
  have ll: "length (last (running_pfs (a_n_frames a @ a_n_frames b) (a_pfs a @ a_pfs b))) = ?R"
    using rp by (metis last_in_set)
  have rates: "length (a_rates a) = ?R" using assms(1) by (simp add: analyze_shapes_def)
  note fs = frac_table_shape [OF ll rates, of "a_times a"]
  show ?thesis
    using assms fs by (auto simp: analyze_shapes_def merged_def)
qed

lemma merged_fresh:
  assumes "analyze_shapes a" "analyze_shapes b" "a_reslist a = a_reslist b"
  shows "fractions_fresh (merged a b)"
proof -
  let ?R = "length (a_reslist a)"
  have ps: "a_pfs a @ a_pfs b \<noteq> []" "\<forall>row\<in>set (a_pfs a @ a_pfs b). length row = ?R"
    using assms by (auto simp: analyze_shapes_def)
  note rp = running_pfs_shape [OF ps, of "a_n_frames a @ a_n_frames b"]
  have ll: "length (last (running_pfs (a_n_frames a @ a_n_frames b) (a_pfs a @ a_pfs b))) = ?R"
    using rp by (metis last_in_set)
  show ?thesis using rp ll by (simp add: fractions_fresh_def merged_fields)
qed

lemma Analyze_add_step:
  assumes "analyze_shapes a" "fractions_fresh a" "operand_ok (length (a_times a)) x"
  shows "\<exists>a' out. Analyze_add a x = Inr (a', out) \<and> analyze_shapes a' \<and> fractions_fresh a' \<and>
           length (a_times a') = length (a_times a)"
proof (cases x)
  case (AnalyzeObj b)
  show ?thesis
  proof (cases "a_reslist a = a_reslist b \<and> np_array_equal (a_rates a) (a_rates b)")
    case True
    have sb: "analyze_shapes b" and tl: "length (a_times b) = length (a_times a)"
      using assms(3) AnalyzeObj by (simp_all add: operand_ok_def)
    have "Analyze_add a x = Inr (merged a b, [])"
      using Analyze_add_merged [OF assms(1) sb _ _ tl] True AnalyzeObj by simp
    then show ?thesis
      using merged_shapes [OF assms(1) sb _ tl] merged_fresh [OF assms(1) sb] True
      by (simp add: merged_fields)
  next
    case False
    then have "Analyze_add a x = Inr (a, [differ_message])"
      using AnalyzeObj by (auto simp: Analyze_add_def)
    then show ?thesis using assms by simp
  qed
qed (use assms in \<open>simp_all add: Analyze_add_def\<close>)

lemma merge_all_fresh:
  assumes "analyze_shapes a" "fractions_fresh a" "\<forall>x\<in>set xs. operand_ok (length (a_times a)) x"
  shows "\<exists>a'. merge_all a xs = Inr a' \<and> analyze_shapes a' \<and> fractions_fresh a'"
  using assms
proof (induction xs arbitrary: a)
  case Nil
  then show ?case by simp
next
  case (Cons x xs)
  from Analyze_add_step [OF Cons.prems(1,2), of x] Cons.prems(3)
  obtain a1 out where s: "Analyze_add a x = Inr (a1, out)" "analyze_shapes a1" "fractions_fresh a1"
    "length (a_times a1) = length (a_times a)"
    by auto
  from Cons.IH [OF s(2,3)] Cons.prems(3) s(4)
  obtain a' where "merge_all a1 xs = Inr a'" "analyze_shapes a'" "fractions_fresh a'" by auto
  then show ?case using s(1) by simp
qed

lemma fresh_pointwise:
  assumes "analyze_shapes a" "fractions_fresh a" "r < length (a_reslist a)" "c < length (a_times a)"
  shows "last (a_c_resfracs a) ! r ! c = spec_fraction (last (a_c_pfs a) ! r) (a_rates a ! r) (a_times a ! c)"
  using assms by (simp add: fractions_fresh_def analyze_shapes_def frac_table_nth)

section \<open>Arithmetic of the merge\<close>

lemma fl_mul_commute: "fl_mul x y = fl_mul y x"
  by (cases x; cases y) auto

lemma fl_scale_back: "0 < F \<Longrightarrow> fl_mul (fl_of_nat F) (fl_div s (fl_of_nat F)) = s"
  by (cases s) (simp_all add: fl_of_nat_def)

lemma fl_unscale: "0 < n \<Longrightarrow> fl_div (fl_mul v (fl_of_nat n)) (fl_of_nat n) = v"
  by (cases v) (simp_all add: fl_of_nat_def)

lemma fl_add_zero_frames: "fl_finite q \<Longrightarrow> fl_add s (fl_mul q (fl_of_nat 0)) = s"
  by (cases q; cases s) (simp_all add: fl_finite_def fl_of_nat_def)

lemma spec_merge_pf_zero:
  "0 < F \<Longrightarrow> fl_finite q \<Longrightarrow> spec_merge_pf F 0 p q = p"
  by (cases q; cases p) (simp_all add: spec_merge_pf_def fl_finite_def fl_of_nat_def)

lemma spec_merge_sd_zero:
  "0 < F \<Longrightarrow> fl_finite q \<Longrightarrow> sd_value p \<Longrightarrow> spec_merge_sd F 0 p q = p"
  by (cases q; cases p)
     (simp_all add: spec_merge_sd_def fl_finite_def sd_value_def fl_of_nat_def real_sqrt_mult)

lemma scale_rows_snoc:
  "length ns = length ps \<Longrightarrow>
   scale_rows (ns @ [f]) (ps @ [q]) = scale_rows ns ps @ [map (\<lambda>v. fl_mul v (fl_of_nat f)) q]"
  by (induction ns ps rule: list_induct2) simp_all

lemma divide_rows_snoc:
  "length cs = length rs \<Longrightarrow>
   divide_rows (cs @ [c]) (rs @ [r]) = divide_rows cs rs @ [map (\<lambda>v. fl_div v (fl_of_nat c)) r]"
  by (induction cs rs rule: list_induct2) simp_all

lemma cumsum_rows_from_snoc:
  "cumsum_rows_from acc (rs @ [r]) =
     cumsum_rows_from acc rs @ [map2 fl_add (last (acc # cumsum_rows_from acc rs)) r]"
  by (induction rs arbitrary: acc) simp_all

lemma np_cumsum0_snoc:
  "rs \<noteq> [] \<Longrightarrow> np_cumsum0 (rs @ [r]) = np_cumsum0 rs @ [map2 fl_add (last (np_cumsum0 rs)) r]"
  by (cases rs) (simp_all add: np_cumsum0_def cumsum_rows_from_snoc)

lemma cumsum_nat_from_snoc:
  "cumsum_nat_from acc (ns @ [f]) =
     cumsum_nat_from acc ns @ [last (acc # cumsum_nat_from acc ns) + f]"
  by (induction ns arbitrary: acc) simp_all

lemma np_cumsum_snoc:
  "ns \<noteq> [] \<Longrightarrow> np_cumsum (ns @ [f]) = np_cumsum ns @ [last (np_cumsum ns) + f]"
  by (cases ns) (simp_all add: np_cumsum_def cumsum_nat_from_snoc)

lemma divide_rows_last:
  "length cs = length rs \<Longrightarrow> rs \<noteq> [] \<Longrightarrow>
   last (divide_rows cs rs) = map (\<lambda>v. fl_div v (fl_of_nat (last cs))) (last rs)"
proof (induction cs rs rule: list_induct2)
  case Nil
  then show ?case by simp
next
  case (Cons c cs r rs)
  then show ?case by (cases rs; cases cs) simp_all
qed

lemma running_pfs_last:
  assumes "length ns = length ps" "ps \<noteq> []"
  shows "last (running_pfs ns ps) =
           map (\<lambda>v. fl_div v (fl_of_nat (last (np_cumsum ns)))) (last (np_cumsum0 (scale_rows ns ps)))"
proof -
  have l: "length (np_cumsum ns) = length (np_cumsum0 (scale_rows ns ps))"
    by (simp add: length_np_cumsum length_np_cumsum0 length_scale_rows assms(1))
  have "length (np_cumsum0 (scale_rows ns ps)) = length ps"
    by (simp add: length_np_cumsum0 length_scale_rows)
  then have ne: "np_cumsum0 (scale_rows ns ps) \<noteq> []" using assms(2) by auto
  show ?thesis unfolding running_pfs_def by (rule divide_rows_last [OF l ne])
qed

lemma running_pfs_snoc_last:
  assumes "length ns = length ps" "ps \<noteq> []"
  shows "last (running_pfs (ns @ [f]) (ps @ [q])) =
           map (\<lambda>v. fl_div v (fl_of_nat (last (np_cumsum ns) + f)))
             (map2 fl_add (last (np_cumsum0 (scale_rows ns ps))) (map (\<lambda>v. fl_mul v (fl_of_nat f)) q))"
proof -
  have ns: "ns \<noteq> []" using assms by auto
  have sr: "scale_rows ns ps \<noteq> []" using assms(2) length_scale_rows [of ns ps] by auto
  have "running_pfs (ns @ [f]) (ps @ [q]) =
          divide_rows (np_cumsum ns @ [last (np_cumsum ns) + f])
            (np_cumsum0 (scale_rows ns ps) @
              [map2 fl_add (last (np_cumsum0 (scale_rows ns ps))) (map (\<lambda>v. fl_mul v (fl_of_nat f)) q)])"
    by (simp add: running_pfs_def scale_rows_snoc [OF assms(1)] np_cumsum0_snoc [OF sr]
        np_cumsum_snoc [OF ns])
  also have "\<dots> = divide_rows (np_cumsum ns) (np_cumsum0 (scale_rows ns ps)) @
      [map (\<lambda>v. fl_div v (fl_of_nat (last (np_cumsum ns) + f)))
         (map2 fl_add (last (np_cumsum0 (scale_rows ns ps))) (map (\<lambda>v. fl_mul v (fl_of_nat f)) q))]"
    by (rule divide_rows_snoc)
       (simp add: length_np_cumsum length_np_cumsum0 length_scale_rows assms(1))
  finally show ?thesis by simp
qed

section \<open>The merge is the frame-weighted mean\<close>

lemma Radou_add_merge:
  assumes "np_array_equal (r_rates self) (r_rates other)"
    and "length (r_pfs self) = length (r_pfs other)"
    and "length (r_pf_byframe self) = length (r_pf_byframe other)"
  shows "\<exists>s. Radou_add dfrac self (RadouObj other) = (s, None) \<and>
     r_n_frames s = r_n_frames self + r_n_frames other \<and>
     r_pfs s = map2 (\<lambda>(pc, sc) (pn, sn).
        (spec_merge_pf (r_n_frames self) (r_n_frames other) pc pn,
         spec_merge_sd (r_n_frames self) (r_n_frames other) sc sn)) (r_pfs self) (r_pfs other) \<and>
     r_pf_byframe s = map2 (@) (r_pf_byframe self) (r_pf_byframe other) \<and>
     r_resfracs s = dfrac (s\<lparr>r_resfracs := r_resfracs self\<rparr>) \<and>
     s\<lparr>r_resfracs := r_resfracs self\<rparr> =
       self\<lparr>r_n_frames := r_n_frames s, r_pfs := r_pfs s, r_pf_byframe := r_pf_byframe s\<rparr>"
  using assms
  apply (simp add: Radou_add_def np_assign_binop_def np_concatenate1_def Let_def)
  apply (rule nth_equalityI)
   apply simp
  apply (simp add: spec_merge_pf_def spec_merge_sd_def radou_merge_pf_def radou_merge_sd_def
      split: prod.splits)
  done

lemma last_cumsum_length:
  assumes "ps \<noteq> []" "\<forall>row\<in>set ps. length row = n"
  shows "length (last (np_cumsum0 (scale_rows ns ps))) = n"
proof -
  have "length (np_cumsum0 (scale_rows ns ps)) = length ps"
    by (simp add: length_np_cumsum0 length_scale_rows)
  then have "np_cumsum0 (scale_rows ns ps) \<noteq> []" using assms(1) by auto
  then have "last (np_cumsum0 (scale_rows ns ps)) \<in> set (np_cumsum0 (scale_rows ns ps))"
    by (rule last_in_set)
  moreover have "\<forall>row\<in>set (np_cumsum0 (scale_rows ns ps)). length row = n"
    by (intro np_cumsum0_rect scale_rows_rect assms(2))
  ultimately show ?thesis by blast
qed

lemma merged_single_last:
  assumes l: "length ns = length ps" and ne: "ps \<noteq> []" and rect: "\<forall>row\<in>set ps. length row = n"
    and F: "0 < last (np_cumsum ns)" and q: "length q = n"
  shows "last (running_pfs (ns @ [f]) (ps @ [q])) =
           map2 (spec_merge_pf (last (np_cumsum ns)) f) (last (running_pfs ns ps)) q"
proof -
  let ?S = "last (np_cumsum0 (scale_rows ns ps))" and ?F = "last (np_cumsum ns)"
  have lS: "length ?S = n" by (rule last_cumsum_length [OF ne rect])
  have "map (\<lambda>v. fl_div v (fl_of_nat (?F + f))) (map2 fl_add ?S (map (\<lambda>v. fl_mul v (fl_of_nat f)) q))
      = map2 (spec_merge_pf ?F f) (map (\<lambda>v. fl_div v (fl_of_nat ?F)) ?S) q"
  proof (rule nth_equalityI)
    show "length (map (\<lambda>v. fl_div v (fl_of_nat (?F + f))) (map2 fl_add ?S (map (\<lambda>v. fl_mul v (fl_of_nat f)) q)))
        = length (map2 (spec_merge_pf ?F f) (map (\<lambda>v. fl_div v (fl_of_nat ?F)) ?S) q)"
      using lS q by simp
  next
    fix i assume "i < length (map (\<lambda>v. fl_div v (fl_of_nat (?F + f))) (map2 fl_add ?S (map (\<lambda>v. fl_mul v (fl_of_nat f)) q)))"
    then have i: "i < n" using lS q by simp
    show "map (\<lambda>v. fl_div v (fl_of_nat (?F + f))) (map2 fl_add ?S (map (\<lambda>v. fl_mul v (fl_of_nat f)) q)) ! i
        = map2 (spec_merge_pf ?F f) (map (\<lambda>v. fl_div v (fl_of_nat ?F)) ?S) q ! i"
      using i lS q fl_scale_back [OF F] fl_mul_commute [of "q ! i" "fl_of_nat f"]
      by (simp add: spec_merge_pf_def)
  qed
  then show ?thesis
    by (simp add: running_pfs_snoc_last [OF l ne] running_pfs_last [OF l ne])
qed

lemma Analyze_add_single_chunk:
  assumes sa: "analyze_shapes a" and cc: "cumulative_consistent a"
    and F: "0 < last (a_c_n_frames a)"
    and sb: "analyze_shapes b" and fb: "a_n_frames b = [f]"
    and rl: "a_reslist a = a_reslist b" and rt: "np_array_equal (a_rates a) (a_rates b)"
    and tl: "length (a_times b) = length (a_times a)"
  shows "\<exists>new. Analyze_add a (AnalyzeObj b) = Inr (new, []) \<and>
           last (a_c_n_frames new) = last (a_c_n_frames a) + f \<and>
           last (a_c_pfs new) = map2 (spec_merge_pf (last (a_c_n_frames a)) f) (last (a_c_pfs a)) (hd (a_pfs b))"
proof -
  obtain q where q: "a_pfs b = [q]" and ql: "length q = length (a_reslist a)"
    using sb fb rl by (cases "a_pfs b") (auto simp: analyze_shapes_def)
  have l: "length (a_n_frames a) = length (a_pfs a)" and ne: "a_pfs a \<noteq> []"
    and rect: "\<forall>row\<in>set (a_pfs a). length row = length (a_reslist a)"
    using sa by (auto simp: analyze_shapes_def)
  have ns: "a_n_frames a \<noteq> []" using l ne by auto
  have cn: "a_c_n_frames a = np_cumsum (a_n_frames a)" and cp: "a_c_pfs a = running_pfs (a_n_frames a) (a_pfs a)"
    using cc by (simp_all add: cumulative_consistent_def)
  have F': "0 < last (np_cumsum (a_n_frames a))" using F cn by simp
  have m: "Analyze_add a (AnalyzeObj b) = Inr (merged a b, [])"
    by (rule Analyze_add_merged [OF sa sb rl rt tl])
  have "last (a_c_n_frames (merged a b)) = last (a_c_n_frames a) + f"
    using fb cn by (simp add: merged_fields np_cumsum_snoc [OF ns])
  moreover have "last (a_c_pfs (merged a b)) =
      map2 (spec_merge_pf (last (a_c_n_frames a)) f) (last (a_c_pfs a)) (hd (a_pfs b))"
    using merged_single_last [OF l ne rect F' ql, of f] fb q cn cp by (simp add: merged_fields)
  ultimately show ?thesis using m by blast
qed

lemma ex_analyze_shapes: "analyze_shapes ex_analyze" "analyze_shapes ex_analyze_300"
  by (simp_all add: analyze_shapes_def ex_analyze_def ex_analyze_300_def)

lemma ex_analyze_consistent: "cumulative_consistent ex_analyze"
  by (simp add: cumulative_consistent_def ex_analyze_def running_pfs_def np_cumsum_def
      np_cumsum0_def fl_of_nat_def)

text \<open>
  C1. A merge of a cumulative state of \<open>F\<close> frames with a chunk of \<open>f\<close> frames (same
  rates and residues) gives, for every residue, the protection factor
  \<open>(F\<cdot>PF_cum + f\<cdot>PF_new) / (F + f)\<close>, the standard deviation
  \<open>sqrt(F\<^sup>2\<cdot>SD_cum\<^sup>2 + f\<^sup>2\<cdot>SD_new\<^sup>2) / (F + f)\<close> and the frame count \<open>F + f\<close>. This holds
  for \<open>Radou.__add__\<close>, which keeps all three, and for \<open>Analyze.__add__\<close>, which keeps the
  cumulative frame count and protection factor (an \<open>Analyze\<close> object holds no standard
  deviation) and whose cumulative arrays are the running values of its history. Two
  chunks of 10 frames with protection factors 100 and 300 give 200.
\<close>

theorem merge_is_frame_weighted_mean:
  "(np_array_equal (r_rates self) (r_rates other) \<and> length (r_pfs self) = length (r_pfs other) \<and>
    length (r_pf_byframe self) = length (r_pf_byframe other) \<longrightarrow>
      (\<exists>s. Radou_add dfrac self (RadouObj other) = (s, None) \<and>
           r_n_frames s = r_n_frames self + r_n_frames other \<and>
           r_pfs s = map2 (\<lambda>(pc, sc) (pn, sn).
              (spec_merge_pf (r_n_frames self) (r_n_frames other) pc pn,
               spec_merge_sd (r_n_frames self) (r_n_frames other) sc sn)) (r_pfs self) (r_pfs other))) \<and>
   (analyze_shapes a \<and> cumulative_consistent a \<and> 0 < last (a_c_n_frames a) \<and>
    analyze_shapes b \<and> a_n_frames b = [f] \<and> a_reslist a = a_reslist b \<and>
    np_array_equal (a_rates a) (a_rates b) \<and> length (a_times b) = length (a_times a) \<longrightarrow>
      (\<exists>new. Analyze_add a (AnalyzeObj b) = Inr (new, []) \<and>
           last (a_c_n_frames new) = last (a_c_n_frames a) + f \<and>
           last (a_c_pfs new) =
             map2 (spec_merge_pf (last (a_c_n_frames a)) f) (last (a_c_pfs a)) (hd (a_pfs b)))) \<and>
   spec_merge_pf 10 10 (Fin 100) (Fin 300) = Fin 200"
proof (intro conjI impI)
  assume "np_array_equal (r_rates self) (r_rates other) \<and> length (r_pfs self) = length (r_pfs other) \<and>
    length (r_pf_byframe self) = length (r_pf_byframe other)"
  then show "\<exists>s. Radou_add dfrac self (RadouObj other) = (s, None) \<and>
           r_n_frames s = r_n_frames self + r_n_frames other \<and>
           r_pfs s = map2 (\<lambda>(pc, sc) (pn, sn).
              (spec_merge_pf (r_n_frames self) (r_n_frames other) pc pn,
               spec_merge_sd (r_n_frames self) (r_n_frames other) sc sn)) (r_pfs self) (r_pfs other)"
    using Radou_add_merge [of self other dfrac] by blast
next
  assume "analyze_shapes a \<and> cumulative_consistent a \<and> 0 < last (a_c_n_frames a) \<and>
    analyze_shapes b \<and> a_n_frames b = [f] \<and> a_reslist a = a_reslist b \<and>
    np_array_equal (a_rates a) (a_rates b) \<and> length (a_times b) = length (a_times a)"
  then show "\<exists>new. Analyze_add a (AnalyzeObj b) = Inr (new, []) \<and>
           last (a_c_n_frames new) = last (a_c_n_frames a) + f \<and>
           last (a_c_pfs new) =
             map2 (spec_merge_pf (last (a_c_n_frames a)) f) (last (a_c_pfs a)) (hd (a_pfs b))"
    using Analyze_add_single_chunk [of a b f] by blast
next
  show "spec_merge_pf 10 10 (Fin 100) (Fin 300) = Fin 200"
    by (simp add: spec_merge_pf_def fl_of_nat_def)
qed

theorem merge_is_frame_weighted_mean_witness:
  "(\<exists>s. Radou_add r_resfracs ex_radou (RadouObj ex_radou_300) = (s, None) \<and>
        r_n_frames s = 20 \<and> r_pfs s = [(Fin 200, Fin 0)]) \<and>
   (\<exists>new. Analyze_add ex_analyze (AnalyzeObj ex_analyze_300) = Inr (new, []) \<and>
        last (a_c_n_frames new) = 20 \<and> last (a_c_pfs new) = [Fin 200])"
proof -
  have r: "np_array_equal (r_rates ex_radou) (r_rates ex_radou_300) \<and>
      length (r_pfs ex_radou) = length (r_pfs ex_radou_300) \<and>
      length (r_pf_byframe ex_radou) = length (r_pf_byframe ex_radou_300)"
    by (simp add: ex_radou_def ex_radou_300_def np_array_equal_def fl_eq_def)
  have a: "analyze_shapes ex_analyze \<and> cumulative_consistent ex_analyze \<and>
      0 < last (a_c_n_frames ex_analyze) \<and> analyze_shapes ex_analyze_300 \<and>
      a_n_frames ex_analyze_300 = [10] \<and> a_reslist ex_analyze = a_reslist ex_analyze_300 \<and>
      np_array_equal (a_rates ex_analyze) (a_rates ex_analyze_300) \<and>
      length (a_times ex_analyze_300) = length (a_times ex_analyze)"
    using ex_analyze_shapes ex_analyze_consistent
    by (simp add: ex_analyze_def ex_analyze_300_def np_array_equal_def fl_eq_def)
  have v: "spec_merge_sd 10 10 (Fin 0) (Fin 0) = Fin 0"
    by (simp add: spec_merge_sd_def fl_of_nat_def)
  from merge_is_frame_weighted_mean [of ex_radou ex_radou_300 r_resfracs ex_analyze ex_analyze_300 10] r a
  have "(\<exists>s. Radou_add r_resfracs ex_radou (RadouObj ex_radou_300) = (s, None) \<and>
           r_n_frames s = r_n_frames ex_radou + r_n_frames ex_radou_300 \<and>
           r_pfs s = map2 (\<lambda>(pc, sc) (pn, sn).
              (spec_merge_pf (r_n_frames ex_radou) (r_n_frames ex_radou_300) pc pn,
               spec_merge_sd (r_n_frames ex_radou) (r_n_frames ex_radou_300) sc sn))
                 (r_pfs ex_radou) (r_pfs ex_radou_300))"
    and "(\<exists>new. Analyze_add ex_analyze (AnalyzeObj ex_analyze_300) = Inr (new, []) \<and>
           last (a_c_n_frames new) = last (a_c_n_frames ex_analyze) + 10 \<and>
           last (a_c_pfs new) =
             map2 (spec_merge_pf (last (a_c_n_frames ex_analyze)) 10) (last (a_c_pfs ex_analyze))
               (hd (a_pfs ex_analyze_300)))"
    and s: "spec_merge_pf 10 10 (Fin 100) (Fin 300) = Fin 200"
    by blast+
  then show ?thesis
    by (simp add: ex_radou_def ex_radou_300_def ex_analyze_def ex_analyze_300_def v)
qed

section \<open>Writing and reading the protection-factor files\<close>

lemma read_fmt_7d: "read_cell (fmt_7d i) = Fin (of_int i)"
  by (simp add: read_cell_def fmt_7d_def)

lemma read_fmt_18_8f: "read_cell (fmt_18_8f v) = round8 v"
  by (cases v) (simp_all add: read_cell_def fmt_18_8f_def round8_def)

lemma round_half_even_int: "round_half_even (of_int n) = n"
  by (simp add: round_half_even_def)

lemma round8_exact: "round8 (Fin (of_int n / 10 ^ 8)) = Fin (of_int n / 10 ^ 8)"
  by (simp add: round8_def round_half_even_int)

lemma ex_summary_file:
  "print_summaries_pf ex_seg_analyze ex_top =
     Inr (''# ResID  Protection factor'',
          [[IntCell 10, DecCell 100000000], [IntCell 11, DecCell 100000000],
           [IntCell 12, DecCell 100000000]])"
  by (simp add: print_summaries_pf_def ex_seg_analyze_def ex_top_def top_residue_def np_savetxt_def
      fmt_7d_def fmt_18_8f_def round_half_even_def)

text \<open>
  C9, the claim as the specification states it fails: the summary file of protection
  factors has rows of two fields, the residue number and the protection factor, and no
  standard deviation; and a protection factor of 1/3 does not come back from a file, which
  holds it as 0.33333333.
\<close>

theorem summary_file_has_no_sd:
  "print_summaries_pf ex_seg_analyze ex_top =
     Inr (''# ResID  Protection factor'',
          [[IntCell 10, DecCell 100000000], [IntCell 11, DecCell 100000000],
           [IntCell 12, DecCell 100000000]]) \<and>
   read_cell (fmt_18_8f (Fin (1 / 3))) = Fin (33333333 / 10 ^ 8) \<and>
   Fin (33333333 / 10 ^ 8) \<noteq> Fin (1 / 3)"
  using ex_summary_file by (simp add: fmt_18_8f_def read_cell_def round_half_even_def)

lemma read_rows3:
  "length rids = length pf_bar \<Longrightarrow>
   map (map read_cell) (map2 (\<lambda>rid (pf, sd). [fmt_7d rid, fmt_18_8f pf, fmt_18_8f sd]) rids pf_bar)
     = map2 (\<lambda>rid (pf, sd). [Fin (of_int rid), round8 pf, round8 sd]) rids pf_bar"
  by (induction rids pf_bar rule: list_induct2) (auto simp: read_fmt_7d read_fmt_18_8f)

lemma read_rows2:
  "length rids = length pfs \<Longrightarrow>
   map (map read_cell) (map2 (\<lambda>rid pf. [fmt_7d rid, fmt_18_8f pf]) rids pfs)
     = map2 (\<lambda>rid pf. [Fin (of_int rid), round8 pf]) rids pfs"
  by (induction rids pfs rule: list_induct2) (auto simp: read_fmt_7d read_fmt_18_8f)

text \<open>
  C9, amended. The file that \<open>Radou.PF\<close> writes is one header line followed by one row
  (ResID, PF, SD) for each residue. The summary file that \<open>Analyze.print_summaries\<close>
  writes is one header line followed by one row (ResID, PF) for each residue, with no
  standard deviation. The residue number is written as an integer and every PF and SD
  with eight decimals, so reading a file back gives the residue numbers as written and
  every PF and SD rounded to eight decimals; a value that is a multiple of \<open>10\<^sup>-\<^sup>8\<close> comes
  back as it was.
\<close>

theorem pf_files_round_trip:
  "(length rids = length pf_bar \<longrightarrow>
      (\<exists>file. Radou_PF_write rids pf_bar = Inr file \<and>
         fst file = ''# ResID  Protection factor Std. Dev.'' \<and>
         snd file = map2 (\<lambda>rid (pf, sd). [fmt_7d rid, fmt_18_8f pf, fmt_18_8f sd]) rids pf_bar \<and>
         read_rows file = map2 (\<lambda>rid (pf, sd). [Fin (of_int rid), round8 pf, round8 sd]) rids pf_bar)) \<and>
   (print_summaries_pf self topo = Inr sfile \<longrightarrow>
      (\<exists>ids. residue_ids topo (a_reslist self) = Inr ids \<and>
         length ids = length (last (a_c_pfs self)) \<and>
         fst sfile = ''# ResID  Protection factor'' \<and>
         snd sfile = map2 (\<lambda>rid pf. [fmt_7d rid, fmt_18_8f pf]) ids (last (a_c_pfs self)) \<and>
         read_rows sfile = map2 (\<lambda>rid pf. [Fin (of_int rid), round8 pf]) ids (last (a_c_pfs self)))) \<and>
   round8 (Fin (of_int n / 10 ^ 8)) = Fin (of_int n / 10 ^ 8) \<and>
   round8 PInf = PInf \<and> round8 NInf = NInf \<and> round8 NaN = NaN"
proof (intro conjI impI)
  assume l: "length rids = length pf_bar"
  then show "\<exists>file. Radou_PF_write rids pf_bar = Inr file \<and>
         fst file = ''# ResID  Protection factor Std. Dev.'' \<and>
         snd file = map2 (\<lambda>rid (pf, sd). [fmt_7d rid, fmt_18_8f pf, fmt_18_8f sd]) rids pf_bar \<and>
         read_rows file = map2 (\<lambda>rid (pf, sd). [Fin (of_int rid), round8 pf, round8 sd]) rids pf_bar"
    using read_rows3 [OF l] by (simp add: Radou_PF_write_def np_savetxt_def read_rows_def)
next
  assume p: "print_summaries_pf self topo = Inr sfile"
  then obtain ids where ids: "residue_ids topo (a_reslist self) = Inr ids"
    by (cases "residue_ids topo (a_reslist self)") (simp_all add: print_summaries_pf_def)
  have l: "length ids = length (last (a_c_pfs self))"
    and f: "sfile = np_savetxt ''ResID  Protection factor''
                      (map2 (\<lambda>rid pf. [fmt_7d rid, fmt_18_8f pf]) ids (last (a_c_pfs self)))"
    using p ids by (auto simp: print_summaries_pf_def split: if_splits)
  show "\<exists>ids. residue_ids topo (a_reslist self) = Inr ids \<and>
         length ids = length (last (a_c_pfs self)) \<and>
         fst sfile = ''# ResID  Protection factor'' \<and>
         snd sfile = map2 (\<lambda>rid pf. [fmt_7d rid, fmt_18_8f pf]) ids (last (a_c_pfs self)) \<and>
         read_rows sfile = map2 (\<lambda>rid pf. [Fin (of_int rid), round8 pf]) ids (last (a_c_pfs self))"
    using ids l f read_rows2 [OF l] by (simp add: np_savetxt_def read_rows_def)
next
  show "round8 (Fin (of_int n / 10 ^ 8)) = Fin (of_int n / 10 ^ 8)" by (rule round8_exact)
qed (simp_all add: round8_def)

theorem pf_files_round_trip_witness:
  "(\<exists>file. Radou_PF_write [10, 11] [(Fin (1 / 2), Fin 0), (Fin (1 / 3), Fin 1)] = Inr file \<and>
      fst file = ''# ResID  Protection factor Std. Dev.'' \<and>
      read_rows file = [[Fin 10, Fin (1 / 2), Fin 0], [Fin 11, Fin (33333333 / 10 ^ 8), Fin 1]]) \<and>
   print_summaries_pf ex_seg_analyze ex_top =
     Inr (''# ResID  Protection factor'',
          [[IntCell 10, DecCell 100000000], [IntCell 11, DecCell 100000000],
           [IntCell 12, DecCell 100000000]]) \<and>
   read_rows (''# ResID  Protection factor'',
          [[IntCell 10, DecCell 100000000], [IntCell 11, DecCell 100000000],
           [IntCell 12, DecCell 100000000]]) = [[Fin 10, Fin 1], [Fin 11, Fin 1], [Fin 12, Fin 1]]"
proof -
  have r: "round8 (Fin (1 / 2)) = Fin (1 / 2)" "round8 (Fin 0) = Fin 0" "round8 (Fin 1) = Fin 1"
    "round8 (Fin (1 / 3)) = Fin (33333333 / 10 ^ 8)"
    by (simp_all add: round8_def round_half_even_def)
  have ids: "residue_ids ex_top (a_reslist ex_seg_analyze) = Inr [10, 11, 12]"
    by (simp add: ex_seg_analyze_def ex_top_def top_residue_def)
  from pf_files_round_trip [of "[10, 11]" "[(Fin (1 / 2), Fin 0), (Fin (1 / 3), Fin 1)]"
      ex_seg_analyze ex_top "(''# ResID  Protection factor'',
          [[IntCell 10, DecCell 100000000], [IntCell 11, DecCell 100000000],
           [IntCell 12, DecCell 100000000]])" 0] ex_summary_file
  show ?thesis
    by (simp add: r ids)
       (simp add: ex_seg_analyze_def r read_rows_def read_cell_def fmt_7d_def fmt_18_8f_def
          round_half_even_def)
qed

end
